theory Spec2Isabelle
  imports Main
begin

section \<open>The crank bot of src/crank-bot/index.ts\<close>

text \<open>
  The bot talks to a remote ledger over RPC, sleeps, logs and updates four process-wide
  counters. The model makes all of that explicit: every RPC answer is an input (a value
  of a sum type, \<open>Inl\<close> for a thrown error), the counters and the loop variables are
  passed as state, and every call that leaves the process (RPC, timer, log line, signing)
  is appended to a trace in program order.
\<close>

subsection \<open>Configuration\<close>

definition MAX_RETRIES :: nat where
  "MAX_RETRIES = 5"

definition MAX_FEE_LAMPORTS :: int where
  "MAX_FEE_LAMPORTS = 5000000"

datatype endpoint = PRIMARY_RPC_URL | FALLBACK_RPC_URL

datatype connection = Connection (rpcEndpoint: endpoint)

subsection \<open>Errors, metrics, log lines and the trace\<close>

text \<open>A thrown value, as the handlers read it: \<open>error.message\<close>.\<close>

datatype error = Error (message: string)

record metrics =
  successCount :: nat
  failureCount :: nat
  lastSuccessSlot :: nat
  consecutiveBlockhashErrors :: nat

text \<open>
  \<open>value.err\<close> of a simulation result when it is not null. The SDK declares it a string or
  an object; a boolean and a number are kept as well, since the test of line 141 is on
  truthiness. A number is kept as an integer, an object (or an array) by its JSON text.
\<close>

datatype js_value = Js_boolean bool | Js_number int | Js_string string | Js_object string

fun truthy :: "js_value \<Rightarrow> bool" where
  "truthy (Js_boolean b) = b"
| "truthy (Js_number n) = (n \<noteq> 0)"
| "truthy (Js_string s) = (s \<noteq> [])"
| "truthy (Js_object j) = True"

text \<open>The lines written through \<open>log\<close>, one constructor per call site.\<close>

datatype log_msg =
    Constructing_attempt nat
  | Gas_cost_too_high int
  | Simulation_failed js_value
  | Success_crank_tx string
  | Metrics_line nat nat nat
  | Crank_execution_failed string
  | Penalty_pause_warning
  | Critical_error_exhausted
  | Backoff_retrying_in nat
  | Primary_RPC_failed string

text \<open>
  The externally visible actions. The two timers of the retry handler are kept apart by
  call site: the 30 s pause of line 167 and the back-off wait of line 182.
\<close>

datatype event =
    Log log_msg
  | GetLatestBlockhash connection
  | Sign
  | GetFeeForMessage connection
  | SimulateTransaction connection
  | SendRawTransaction connection
  | GetSlot connection
  | Penalty_pause nat
  | Backoff_wait nat

definition logMetrics :: "metrics \<Rightarrow> event" where
  "logMetrics mt = Log (Metrics_line (successCount mt) (failureCount mt) (lastSuccessSlot mt))"

subsection \<open>String.prototype.includes\<close>

fun prefix_of :: "string \<Rightarrow> string \<Rightarrow> bool" where
  "prefix_of [] s = True"
| "prefix_of (p # ps) [] = False"
| "prefix_of (p # ps) (c # cs) = (p = c \<and> prefix_of ps cs)"

fun string_includes :: "string \<Rightarrow> string \<Rightarrow> bool" where
  "string_includes [] p = (p = [])"
| "string_includes (c # cs) p = (prefix_of p (c # cs) \<or> string_includes cs p)"

subsection \<open>getConnectionWithFailover (lines 59--68)\<close>

text \<open>
  \<open>slot_of ep\<close> is what \<open>getSlot\<close> answers on endpoint \<open>ep\<close> at the moment of the call.
  Only the primary is asked; the fallback connection is constructed and returned unprobed.
\<close>

definition getConnectionWithFailover :: "(endpoint \<Rightarrow> error + nat) \<Rightarrow> connection \<times> event list" where
  "getConnectionWithFailover slot_of =
     (let primary = Connection PRIMARY_RPC_URL in
      case slot_of PRIMARY_RPC_URL of
        Inr s \<Rightarrow> (primary, [GetSlot primary])
      | Inl e \<Rightarrow> (Connection FALLBACK_RPC_URL,
                  [GetSlot primary, Log (Primary_RPC_failed (message e))]))"

subsection \<open>executeCrankInstruction (lines 102--190)\<close>

text \<open>
  What the statements of one attempt that leave the process come to, \<open>Inl\<close> when the
  statement throws. The local calls evaluated in the same statement go with it:
  \<^item> \<open>getLatestBlockhash\<close>: lines 126--130, the await and then \<open>tx.sign\<close> on the anchor it
    returned (\<open>tx.sign\<close> throws only on an anchor that is not a well-formed blockhash);
  \<^item> \<open>getFeeForMessage\<close>: line 133, \<open>tx.compileMessage()\<close> and the await; the value is the
    estimate, or null (\<open>None\<close>);
  \<^item> \<open>simulateTransaction\<close>: line 140; the value is \<open>value.err\<close>, null (\<open>None\<close>) or not;
  \<^item> \<open>sendRawTransaction\<close>: line 148, \<open>tx.serialize()\<close> and the await;
  \<^item> \<open>getSlot\<close>: line 151.
\<close>

record rpc_responses =
  getLatestBlockhash :: "error + string \<times> nat"
  getFeeForMessage :: "error + int option"
  simulateTransaction :: "error + js_value option"
  sendRawTransaction :: "error + string"
  getSlot :: "error + nat"

text \<open>
  The world of one invocation: the answers to attempt number \<open>i\<close> (counted from 0, the
  value of \<open>attempts\<close> when the attempt starts) and what \<open>getSlot\<close> answers on each
  endpoint when the connection is re-acquired after attempt \<open>i\<close> has failed.
\<close>

record world =
  responses :: "nat \<Rightarrow> rpc_responses"
  probe :: "nat \<Rightarrow> endpoint \<Rightarrow> error + nat"

text \<open>How the \<open>try\<close> block of one attempt ends.\<close>

datatype try_result = Return | Break_fee | Break_sim | Throw error

text \<open>
  The \<open>try\<close> block, lines 107--157. The fee value is read as a number only when it is
  not null (\<open>feeMetadata.value !== null && ...\<close>); the simulation counts as failed when
  \<open>value.err\<close> is truthy (\<open>if (simResult.value.err)\<close>). An entry of the trace for a
  statement says that the statement has been reached; \<open>Sign\<close> says that the transaction
  has been signed.
\<close>

definition try_block ::
  "rpc_responses \<Rightarrow> connection \<Rightarrow> nat \<Rightarrow> metrics \<Rightarrow> try_result \<times> metrics \<times> event list" where
  "try_block r conn attempts mt =
     (let t0 = [Log (Constructing_attempt (attempts + 1)), GetLatestBlockhash conn] in
      case getLatestBlockhash r of
        Inl e \<Rightarrow> (Throw e, mt, t0)
      | Inr bh \<Rightarrow>
        (let t1 = t0 @ [Sign, GetFeeForMessage conn] in
         case getFeeForMessage r of
           Inl e \<Rightarrow> (Throw e, mt, t1)
         | Inr fee \<Rightarrow>
           if fee \<noteq> None \<and> the fee > MAX_FEE_LAMPORTS
           then (Break_fee, mt, t1 @ [Log (Gas_cost_too_high (the fee))])
           else
             (let t2 = t1 @ [SimulateTransaction conn] in
              case simulateTransaction r of
                Inl e \<Rightarrow> (Throw e, mt, t2)
              | Inr err \<Rightarrow>
                if err \<noteq> None \<and> truthy (the err)
                then
                  (let mt' = mt\<lparr>failureCount := failureCount mt + 1\<rparr> in
                   (Break_sim, mt', t2 @ [Log (Simulation_failed (the err)), logMetrics mt']))
                else
                (let t3 = t2 @ [SendRawTransaction conn] in
                 case sendRawTransaction r of
                   Inl e \<Rightarrow> (Throw e, mt, t3)
                 | Inr sig \<Rightarrow>
                   (let t4 = t3 @ [Log (Success_crank_tx sig), GetSlot conn] in
                    case getSlot r of
                      Inl e \<Rightarrow> (Throw e, mt, t4)
                    | Inr currentSlot \<Rightarrow>
                      (let mt' = mt\<lparr>successCount := successCount mt + 1,
                                     lastSuccessSlot := currentSlot,
                                     consecutiveBlockhashErrors := 0\<rparr> in
                       (Return, mt', t4 @ [logMetrics mt'])))))))"

text \<open>The state of the loop: its two local variables, the connection, the counters, the trace.\<close>

record exec_state =
  attempts :: nat
  delay :: nat
  conn :: connection
  mets :: metrics
  trace :: "event list"

text \<open>The test of line 163 on the caught error.\<close>

definition is_blockhash_expiry :: "error \<Rightarrow> bool" where
  "is_blockhash_expiry e =
     (string_includes (message e) ''BlockhashNotFound'' \<or> string_includes (message e) ''block height exceeded'')"

text \<open>The blockhash expiry guard, lines 162--172: the new counter and what it does.\<close>

definition blockhash_guard :: "error \<Rightarrow> nat \<Rightarrow> nat \<times> event list" where
  "blockhash_guard e c =
     (if is_blockhash_expiry e then
        (let c1 = c + 1 in
         if c1 \<ge> 3 then (0, [Log Penalty_pause_warning, Penalty_pause 30000])
         else (c1, []))
      else (0, []))"

text \<open>The \<open>catch\<close> block, lines 159--188.\<close>

definition catch_block :: "(endpoint \<Rightarrow> error + nat) \<Rightarrow> error \<Rightarrow> exec_state \<Rightarrow> exec_state" where
  "catch_block slot_of e st =
     (let (c, tg) = blockhash_guard e (consecutiveBlockhashErrors (mets st));
          mt = (mets st)\<lparr>consecutiveBlockhashErrors := c,
                          failureCount := failureCount (mets st) + 1\<rparr>;
          a = attempts st + 1;
          t1 = trace st @ [Log (Crank_execution_failed (message e))] @ tg
      in
      if a \<ge> MAX_RETRIES then
        st\<lparr>attempts := a, mets := mt,
           trace := t1 @ [Log Critical_error_exhausted, logMetrics mt]\<rparr>
      else
        (let (cn, tp) = getConnectionWithFailover slot_of in
         st\<lparr>attempts := a, delay := delay st * 2, conn := cn, mets := mt,
            trace := t1 @ [Log (Backoff_retrying_in (delay st)), Backoff_wait (delay st)] @ tp\<rparr>))"

text \<open>How an invocation ends; in all four cases the function returns normally.\<close>

datatype exit = Submitted | Fee_veto | Simulation_abort | Retries_exhausted

text \<open>
  One pass through the body of the \<open>while\<close> loop: \<open>Inl\<close> when the pass leaves the loop
  (\<open>return\<close> or \<open>break\<close>), \<open>Inr\<close> with the state for the next test of the loop
  condition when the \<open>catch\<close> block has run.
\<close>

definition loop_body :: "world \<Rightarrow> exec_state \<Rightarrow> exit \<times> exec_state + exec_state" where
  "loop_body w st =
     (case try_block (responses w (attempts st)) (conn st) (attempts st) (mets st) of
        (Return, mt, t) \<Rightarrow> Inl (Submitted, st\<lparr>mets := mt, trace := trace st @ t\<rparr>)
      | (Break_fee, mt, t) \<Rightarrow> Inl (Fee_veto, st\<lparr>mets := mt, trace := trace st @ t\<rparr>)
      | (Break_sim, mt, t) \<Rightarrow> Inl (Simulation_abort, st\<lparr>mets := mt, trace := trace st @ t\<rparr>)
      | (Throw e, mt, t) \<Rightarrow>
          Inr (catch_block (probe w (attempts st)) e (st\<lparr>mets := mt, trace := trace st @ t\<rparr>)))"

lemma catch_block_attempts: "attempts (catch_block slot_of e st) = attempts st + 1"
  by (simp add: catch_block_def Let_def split: prod.splits)

lemma loop_body_attempts: "loop_body w st = Inr st' \<Longrightarrow> attempts st' = attempts st + 1"
  by (auto simp: loop_body_def catch_block_attempts split: prod.splits try_result.splits)

text \<open>The \<open>while\<close> loop of line 106.\<close>

function crank_loop :: "world \<Rightarrow> exec_state \<Rightarrow> exit \<times> exec_state" where
  "crank_loop w st =
     (if attempts st < MAX_RETRIES then
        (case loop_body w st of
           Inl r \<Rightarrow> r
         | Inr st' \<Rightarrow> crank_loop w st')
      else (Retries_exhausted, st))"
  by pat_completeness auto
termination
  by (relation "measure (\<lambda>(w, st). MAX_RETRIES - attempts st)")
     (auto dest: loop_body_attempts)

declare crank_loop.simps [simp del]

text \<open>One invocation: \<open>attempts = 0\<close>, \<open>delay = 1000\<close>, on the connection and counters given.\<close>

definition executeCrankInstruction :: "world \<Rightarrow> connection \<Rightarrow> metrics \<Rightarrow> exit \<times> exec_state" where
  "executeCrankInstruction w connection mt =
     crank_loop w \<lparr>attempts = 0, delay = 1000, conn = connection, mets = mt, trace = []\<rparr>"


text \<open>
  The state of the loop after its first \<open>k\<close> passes from \<open>st\<close>, when each of them has ended
  in the \<open>catch\<close> block; \<open>None\<close> when the loop has been left, or has run out of attempts,
  before that.
\<close>

fun after_failures :: "world \<Rightarrow> exec_state \<Rightarrow> nat \<Rightarrow> exec_state option" where
  "after_failures w st 0 = Some st"
| "after_failures w st (Suc k) =
     (if attempts st < MAX_RETRIES then
        (case loop_body w st of
           Inl r \<Rightarrow> None
         | Inr st' \<Rightarrow> after_failures w st' k)
      else None)"

text \<open>
  The same for an invocation: \<open>failed_attempts w connection mt k = Some st\<close> says that the
  first \<open>k\<close> attempts of the invocation have failed in the \<open>catch\<close> block and have left the
  state \<open>st\<close>. With \<open>k < MAX_RETRIES\<close> it is the state in which attempt number \<open>k\<close> (counted
  from 0) starts.
\<close>

definition failed_attempts :: "world \<Rightarrow> connection \<Rightarrow> metrics \<Rightarrow> nat \<Rightarrow> exec_state option" where
  "failed_attempts w connection mt k =
     after_failures w \<lparr>attempts = 0, delay = 1000, conn = connection, mets = mt, trace = []\<rparr> k"

subsection \<open>Start-up (lines 17--42 and 192--220)\<close>

text \<open>
  Start-up reaches the library through five calls, which are parameters here, over any
  types \<open>'v\<close> of parsed JSON values, \<open>'k\<close> of keypairs and \<open>'p\<close> of public keys:
  \<^item> \<open>JSON_parse\<close>: \<open>JSON.parse\<close>, which throws on a text that is not JSON;
  \<^item> \<open>length_positive\<close>: the test \<open>secretKeyArray.length > 0\<close>, which throws when reading
    \<open>length\<close> throws (the parsed value is \<open>null\<close>);
  \<^item> \<open>fromSecretKey\<close>: \<open>Keypair.fromSecretKey(new Uint8Array(...))\<close>, which throws on a key
    it does not accept;
  \<^item> \<open>new_PublicKey\<close>: \<open>new PublicKey(...)\<close>, which throws on a text that is not a public key;
  \<^item> \<open>new_Connection\<close>: \<open>new Connection(url, "confirmed")\<close> on a configured endpoint, which
    throws (\<open>Some\<close>) on a URL it does not accept.
\<close>

record ('v, 'k, 'p) library =
  JSON_parse :: "string \<Rightarrow> error + 'v"
  length_positive :: "'v \<Rightarrow> error + bool"
  fromSecretKey :: "'v \<Rightarrow> error + 'k"
  new_PublicKey :: "string \<Rightarrow> error + 'p"
  new_Connection :: "endpoint \<Rightarrow> error option"

text \<open>The variables of \<open>process.env\<close> that start-up reads; \<open>None\<close> for one that is not set.\<close>

record environment =
  PERCOLATOR_PROGRAM_ID :: "string option"
  PERCOLATOR_SLAB :: "string option"
  ORACLE_ACCOUNT :: "string option"
  CRANK_KEYPAIR_JSON :: "string option"

text \<open>\<open>process.env.X || d\<close>: a variable that is not set or is empty gives the default.\<close>

definition or_default :: "string option \<Rightarrow> string \<Rightarrow> string" where
  "or_default x d = (case x of None \<Rightarrow> d | Some s \<Rightarrow> if s = [] then d else s)"

datatype 'k wallet = From_secret_key 'k | Generated_random_keypair

text \<open>
  The wallet block, lines 29--42: \<open>Inl code\<close> for \<open>process.exit(code)\<close>, else the wallet. An
  empty key array takes the branch of line 36, which generates a keypair and warns.
\<close>

definition load_crankWallet :: "('v, 'k, 'p) library \<Rightarrow> string option \<Rightarrow> nat + 'k wallet" where
  "load_crankWallet lib key_json =
     (case JSON_parse lib (or_default key_json ''[]'') of
        Inl e \<Rightarrow> Inl 1
      | Inr secretKeyArray \<Rightarrow>
        (case length_positive lib secretKeyArray of
           Inl e \<Rightarrow> Inl 1
         | Inr True \<Rightarrow>
           (case fromSecretKey lib secretKeyArray of
              Inl e \<Rightarrow> Inl 1
            | Inr k \<Rightarrow> Inr (From_secret_key k))
         | Inr False \<Rightarrow> Inr Generated_random_keypair))"

text \<open>
  The first statement of \<open>loop\<close> that can throw, line 196: \<open>getConnectionWithFailover\<close> with
  the constructor of the connection. The primary connection is constructed outside the
  \<open>try\<close> of line 61, the fallback connection inside its \<open>catch\<close>; a throw of either leaves
  \<open>loop\<close>. (In the executor the constructor is taken to return.)
\<close>

definition loop_start ::
  "(endpoint \<Rightarrow> error option) \<Rightarrow> (endpoint \<Rightarrow> error + nat) \<Rightarrow> error + connection" where
  "loop_start new_conn slot_of =
     (case new_conn PRIMARY_RPC_URL of
        Some e \<Rightarrow> Inl e
      | None \<Rightarrow>
        (case slot_of PRIMARY_RPC_URL of
           Inr s \<Rightarrow> Inr (Connection PRIMARY_RPC_URL)
         | Inl e \<Rightarrow>
           (case new_conn FALLBACK_RPC_URL of
              Some e' \<Rightarrow> Inl e'
            | None \<Rightarrow> Inr (Connection FALLBACK_RPC_URL))))"

text \<open>
  How start-up ends: an exception that nothing catches ends the process while the module
  loads (lines 25--27); \<open>process.exit\<close> is called in the wallet block (line 41) or by the
  handler of lines 217--220 when \<open>loop\<close> throws; or the scheduler loop of line 198 is
  entered, with a wallet and a connection.
\<close>

datatype 'k startup =
    Uncaught_exception error
  | Process_exit nat
  | Enters_loop "'k wallet" connection

definition startup ::
  "('v, 'k, 'p) library \<Rightarrow> environment \<Rightarrow> (endpoint \<Rightarrow> error + nat) \<Rightarrow> 'k startup" where
  "startup lib env slot_of =
     (case new_PublicKey lib (or_default (PERCOLATOR_PROGRAM_ID env)
                                ''p3Rc0Lator111111111111111111111111111111111'') of
        Inl e \<Rightarrow> Uncaught_exception e
      | Inr programId \<Rightarrow>
     (case new_PublicKey lib (or_default (PERCOLATOR_SLAB env)
                                ''11111111111111111111111111111111'') of
        Inl e \<Rightarrow> Uncaught_exception e
      | Inr slab \<Rightarrow>
     (case new_PublicKey lib (or_default (ORACLE_ACCOUNT env)
                                ''11111111111111111111111111111111'') of
        Inl e \<Rightarrow> Uncaught_exception e
      | Inr oracle \<Rightarrow>
     (case load_crankWallet lib (CRANK_KEYPAIR_JSON env) of
        Inl code \<Rightarrow> Process_exit code
      | Inr crankWallet \<Rightarrow>
     (case loop_start (new_Connection lib) slot_of of
        Inl e \<Rightarrow> Process_exit 1
      | Inr connection \<Rightarrow> Enters_loop crankWallet connection)))))"

text \<open>Start-up is fatal when the process ends instead of entering the scheduler loop.\<close>

definition fatal :: "'k startup \<Rightarrow> bool" where
  "fatal s = (case s of Enters_loop crankWallet connection \<Rightarrow> False | _ \<Rightarrow> True)"

text \<open>A call returns when it does not throw.\<close>

definition returns :: "error + 'a \<Rightarrow> bool" where
  "returns x = (case x of Inr y \<Rightarrow> True | Inl e \<Rightarrow> False)"

text \<open>The three configured ids are public keys.\<close>

definition public_keys_ok :: "('v, 'k, 'p) library \<Rightarrow> environment \<Rightarrow> bool" where
  "public_keys_ok lib env =
     (returns (new_PublicKey lib (or_default (PERCOLATOR_PROGRAM_ID env)
                                    ''p3Rc0Lator111111111111111111111111111111111''))
    \<and> returns (new_PublicKey lib (or_default (PERCOLATOR_SLAB env)
                                    ''11111111111111111111111111111111''))
    \<and> returns (new_PublicKey lib (or_default (ORACLE_ACCOUNT env)
                                    ''11111111111111111111111111111111'')))"

text \<open>The alphabet of base 58, in which a public key is written.\<close>

definition is_base58 :: "string \<Rightarrow> bool" where
  "is_base58 s =
     list_all (\<lambda>c. c \<in> set ''123456789ABCDEFGHJKLMNPQRSTUVWXYZabcdefghijkmnopqrstuvwxyz'') s"

subsection \<open>Observations on traces and example inputs\<close>

text \<open>The actions of a trace without its log lines.\<close>

definition actions :: "event list \<Rightarrow> event list" where
  "actions t = filter (\<lambda>ev. case ev of Log m \<Rightarrow> False | _ \<Rightarrow> True) t"

text \<open>The back-off waits and the penalty pauses of a trace, in order, in milliseconds.\<close>

definition backoff_waits :: "event list \<Rightarrow> nat list" where
  "backoff_waits t = concat (map (\<lambda>ev. case ev of Backoff_wait d \<Rightarrow> [d] | _ \<Rightarrow> []) t)"

definition penalty_pauses :: "event list \<Rightarrow> nat list" where
  "penalty_pauses t = concat (map (\<lambda>ev. case ev of Penalty_pause d \<Rightarrow> [d] | _ \<Rightarrow> []) t)"

text \<open>An endpoint is reachable when \<open>getSlot\<close> on it returns.\<close>

definition reachable :: "(endpoint \<Rightarrow> error + nat) \<Rightarrow> endpoint \<Rightarrow> bool" where
  "reachable slot_of ep = (case slot_of ep of Inr s \<Rightarrow> True | Inl e \<Rightarrow> False)"

text \<open>
  Example inputs: an attempt on which every call succeeds (fee 1000 lamports, clean
  simulation, slot 1000), fresh counters, and a ledger that answers every attempt alike.
\<close>

definition healthy :: rpc_responses where
  "healthy = \<lparr>getLatestBlockhash = Inr (''blockhash'', 200),
              getFeeForMessage = Inr (Some 1000),
              simulateTransaction = Inr None,
              sendRawTransaction = Inr ''signature'',
              getSlot = Inr 1000\<rparr>"

definition fresh_metrics :: metrics where
  "fresh_metrics = \<lparr>successCount = 0, failureCount = 0, lastSuccessSlot = 0,
                    consecutiveBlockhashErrors = 0\<rparr>"

definition always :: "rpc_responses \<Rightarrow> world" where
  "always r = \<lparr>responses = (\<lambda>i. r), probe = (\<lambda>i ep. Inr 1000)\<rparr>"

text \<open>Two attempts whose submission fails on the network, then a healthy ledger.\<close>

definition two_network_errors :: world where
  "two_network_errors =
     \<lparr>responses = (\<lambda>i. if i < 2 then healthy\<lparr>sendRawTransaction := Inl (Error ''Network error'')\<rparr>
                         else healthy),
      probe = (\<lambda>i ep. Inr 1000)\<rparr>"

text \<open>The primary endpoint does not answer, the fallback does.\<close>

definition primary_down :: "endpoint \<Rightarrow> error + nat" where
  "primary_down ep =
     (case ep of PRIMARY_RPC_URL \<Rightarrow> Inl (Error ''fetch failed'') | FALLBACK_RPC_URL \<Rightarrow> Inr 1000)"

text \<open>
  Two attempts whose submission is refused with an expired blockhash, then an attempt whose
  fee estimate is 6,000,000 lamports.
\<close>

definition expiries_then_veto :: world where
  "expiries_then_veto =
     \<lparr>responses = (\<lambda>i. if i < 2 then healthy\<lparr>sendRawTransaction := Inl (Error ''BlockhashNotFound'')\<rparr>
                         else healthy\<lparr>getFeeForMessage := Inr (Some 6000000)\<rparr>),
      probe = (\<lambda>i ep. Inr 1000)\<rparr>"

text \<open>
  A submission that goes out and a slot query that then fails, then an attempt whose fee
  estimate is 6,000,000 lamports.
\<close>

definition slot_error_then_veto :: world where
  "slot_error_then_veto =
     \<lparr>responses = (\<lambda>i. if i < 1 then healthy\<lparr>getSlot := Inl (Error ''fetch failed'')\<rparr>
                         else healthy\<lparr>getFeeForMessage := Inr (Some 6000000)\<rparr>),
      probe = (\<lambda>i ep. Inr 1000)\<rparr>"

text \<open>A submission that fails on the network, then an attempt whose simulation reports an error.\<close>

definition send_error_then_simulation_error :: world where
  "send_error_then_simulation_error =
     \<lparr>responses = (\<lambda>i. if i < 1 then healthy\<lparr>sendRawTransaction := Inl (Error ''Network error'')\<rparr>
                         else healthy\<lparr>simulateTransaction := Inr (Some (Js_string ''AccountNotFound''))\<rparr>),
      probe = (\<lambda>i ep. Inr 1000)\<rparr>"


text \<open>
  A library for the examples of start-up, on byte lists for keys and texts for public keys:
  a parser that knows the text \<open>[]\<close> and rejects every other text (as \<open>JSON.parse\<close> does with
  the texts it is given in the examples), the length test, a keypair constructor that wants
  64 bytes, a public-key constructor that wants base 58, and a connection constructor that
  accepts both URLs. The environment sets the program id to the id of the system program
  and nothing else.
\<close>

definition example_library :: "(nat list, nat list, string) library" where
  "example_library =
     \<lparr>JSON_parse = (\<lambda>s. if s = ''[]'' then Inr [] else Inl (Error ''Unexpected token'')),
      length_positive = (\<lambda>v. Inr (length v > 0)),
      fromSecretKey = (\<lambda>v. if length v = 64 then Inr v else Inl (Error ''bad secret key size'')),
      new_PublicKey = (\<lambda>s. if is_base58 s then Inr s else Inl (Error ''Non-base58 character'')),
      new_Connection = (\<lambda>ep. None)\<rparr>"

definition example_environment :: environment where
  "example_environment =
     \<lparr>PERCOLATOR_PROGRAM_ID = Some ''11111111111111111111111111111111'',
      PERCOLATOR_SLAB = None,
      ORACLE_ACCOUNT = None,
      CRANK_KEYPAIR_JSON = None\<rparr>"

section \<open>Auxiliary facts\<close>

subsection \<open>The example inputs and the observations\<close>

lemma example_eval [simp]:
  "getLatestBlockhash healthy = Inr (''blockhash'', 200)"
  "getFeeForMessage healthy = Inr (Some 1000)"
  "simulateTransaction healthy = Inr None"
  "sendRawTransaction healthy = Inr ''signature''"
  "getSlot healthy = Inr 1000"
  "responses (always r) i = r"
  "probe (always r) i ep = Inr 1000"
  by (simp_all add: healthy_def always_def)


lemma backoff_waits_simps [simp]:
  "backoff_waits [] = []"
  "backoff_waits (ev # t) = (case ev of Backoff_wait d \<Rightarrow> [d] | _ \<Rightarrow> []) @ backoff_waits t"
  by (simp_all add: backoff_waits_def)

lemma penalty_pauses_simps [simp]:
  "penalty_pauses [] = []"
  "penalty_pauses (ev # t) = (case ev of Penalty_pause d \<Rightarrow> [d] | _ \<Rightarrow> []) @ penalty_pauses t"
  by (simp_all add: penalty_pauses_def)

lemma backoff_waits_append [simp]: "backoff_waits (a @ b) = backoff_waits a @ backoff_waits b"
  by (simp add: backoff_waits_def)

lemma penalty_pauses_append [simp]: "penalty_pauses (a @ b) = penalty_pauses a @ penalty_pauses b"
  by (simp add: penalty_pauses_def)

subsection \<open>The connection selector and the try block make no timer call\<close>

lemma failover_waits [simp]:
  "backoff_waits (snd (getConnectionWithFailover slot_of)) = []"
  "penalty_pauses (snd (getConnectionWithFailover slot_of)) = []"
  by (simp_all add: getConnectionWithFailover_def Let_def split: sum.splits)

lemma try_block_waits [simp]:
  "backoff_waits (snd (snd (try_block r c n mt))) = []"
  "penalty_pauses (snd (snd (try_block r c n mt))) = []"
  by (cases "getLatestBlockhash r"; cases "getFeeForMessage r"; cases "simulateTransaction r";
      cases "sendRawTransaction r"; cases "getSlot r";
      simp add: try_block_def logMetrics_def Let_def split: option.splits)+

subsection \<open>The try block\<close>

lemma try_block_fee_veto:
  assumes "getLatestBlockhash r = Inr bh" and "getFeeForMessage r = Inr (Some v)"
    and "v > MAX_FEE_LAMPORTS"
  shows "try_block r c n mt =
           (Break_fee, mt,
            [Log (Constructing_attempt (n + 1)), GetLatestBlockhash c, Sign,
             GetFeeForMessage c, Log (Gas_cost_too_high v)])"
  using assms by (simp add: try_block_def)

lemma try_block_sim_error:
  assumes "getLatestBlockhash r = Inr bh" and "getFeeForMessage r = Inr fee"
    and "\<not> (fee \<noteq> None \<and> the fee > MAX_FEE_LAMPORTS)"
    and "simulateTransaction r = Inr (Some err)" and "truthy err"
  shows "try_block r c n mt =
           (Break_sim, mt\<lparr>failureCount := failureCount mt + 1\<rparr>,
            [Log (Constructing_attempt (n + 1)), GetLatestBlockhash c, Sign,
             GetFeeForMessage c, SimulateTransaction c, Log (Simulation_failed err),
             logMetrics (mt\<lparr>failureCount := failureCount mt + 1\<rparr>)])"
  using assms by (simp add: try_block_def Let_def)

text \<open>A try block that throws has not touched the counters.\<close>

lemma try_block_throw_metrics:
  "try_block r c n mt = (Throw e, mt', t) \<Longrightarrow> mt' = mt"
  by (cases "getLatestBlockhash r"; cases "getFeeForMessage r"; cases "simulateTransaction r";
      cases "sendRawTransaction r"; cases "getSlot r")
     (auto simp: try_block_def Let_def split: option.splits if_splits)

text \<open>Only a try block that returns changes the expiry counter.\<close>

lemma try_block_counter:
  "consecutiveBlockhashErrors (fst (snd (try_block r c n mt))) =
     (if fst (try_block r c n mt) = Return then 0 else consecutiveBlockhashErrors mt)"
  by (cases "getLatestBlockhash r"; cases "getFeeForMessage r"; cases "simulateTransaction r";
      cases "sendRawTransaction r"; cases "getSlot r")
     (simp_all add: try_block_def Let_def split: option.splits)

subsection \<open>The catch block\<close>

text \<open>What one run of the catch block appends to the trace.\<close>

lemma catch_block_trace:
  "\<exists>new. trace (catch_block slot_of e st) = trace st @ Log (Crank_execution_failed (message e)) # new"
  by (simp add: catch_block_def Let_def split: prod.splits)

lemma catch_block_delay:
  "delay (catch_block slot_of e st) =
     (if attempts st + 1 \<ge> MAX_RETRIES then delay st else delay st * 2)"
  by (simp add: catch_block_def Let_def split: prod.splits)

lemma catch_block_failureCount:
  "failureCount (mets (catch_block slot_of e st)) = failureCount (mets st) + 1"
  by (simp add: catch_block_def Let_def split: prod.splits)

lemma catch_block_successCount:
  "successCount (mets (catch_block slot_of e st)) = successCount (mets st)"
  by (simp add: catch_block_def Let_def split: prod.splits)

lemma catch_block_counter:
  "consecutiveBlockhashErrors (mets (catch_block slot_of e st)) =
     fst (blockhash_guard e (consecutiveBlockhashErrors (mets st)))"
  by (simp add: catch_block_def Let_def split: prod.splits)

lemma blockhash_guard_waits [simp]: "backoff_waits (snd (blockhash_guard e c)) = []"
  by (simp add: blockhash_guard_def Let_def)

lemma blockhash_guard_pauses:
  "penalty_pauses (snd (blockhash_guard e c)) =
     (if is_blockhash_expiry e \<and> c + 1 \<ge> 3 then [30000] else [])"
  by (simp add: blockhash_guard_def Let_def)

lemma catch_block_backoff_waits:
  "backoff_waits (trace (catch_block slot_of e st)) =
     backoff_waits (trace st) @ (if attempts st + 1 \<ge> MAX_RETRIES then [] else [delay st])"
proof -
  obtain c tg where g: "blockhash_guard e (consecutiveBlockhashErrors (mets st)) = (c, tg)"
    by (cases "blockhash_guard e (consecutiveBlockhashErrors (mets st))")
  obtain cn tp where f: "getConnectionWithFailover slot_of = (cn, tp)"
    by (cases "getConnectionWithFailover slot_of")
  from g have "backoff_waits tg = []"
    using blockhash_guard_waits [of e "consecutiveBlockhashErrors (mets st)"] by simp
  moreover from f have "backoff_waits tp = []"
    using failover_waits(1) [of slot_of] by simp
  ultimately show ?thesis
    by (simp add: catch_block_def Let_def g f logMetrics_def)
qed

lemma catch_block_penalty_pauses:
  "penalty_pauses (trace (catch_block slot_of e st)) =
     penalty_pauses (trace st) @
     penalty_pauses (snd (blockhash_guard e (consecutiveBlockhashErrors (mets st))))"
proof -
  obtain c tg where g: "blockhash_guard e (consecutiveBlockhashErrors (mets st)) = (c, tg)"
    by (cases "blockhash_guard e (consecutiveBlockhashErrors (mets st))")
  obtain cn tp where f: "getConnectionWithFailover slot_of = (cn, tp)"
    by (cases "getConnectionWithFailover slot_of")
  from f have "penalty_pauses tp = []"
    using failover_waits(2) [of slot_of] by simp
  then show ?thesis
    by (simp add: catch_block_def Let_def g f logMetrics_def)
qed

lemma catch_block_last_pass:
  "attempts st + 1 \<ge> MAX_RETRIES \<Longrightarrow>
     \<exists>t. trace (catch_block slot_of e st) =
           t @ [Log Critical_error_exhausted, logMetrics (mets (catch_block slot_of e st))]"
  by (simp add: catch_block_def Let_def split: prod.splits)

subsection \<open>One pass through the loop body\<close>

lemma crank_loop_leave:
  "attempts st < MAX_RETRIES \<Longrightarrow> loop_body w st = Inl r \<Longrightarrow> crank_loop w st = r"
  by (subst crank_loop.simps) simp

lemma crank_loop_retry:
  "attempts st < MAX_RETRIES \<Longrightarrow> loop_body w st = Inr st' \<Longrightarrow> crank_loop w st = crank_loop w st'"
  by (subst crank_loop.simps) simp

lemma crank_loop_exhausted:
  "\<not> attempts st < MAX_RETRIES \<Longrightarrow> crank_loop w st = (Retries_exhausted, st)"
  by (subst crank_loop.simps) simp

lemma loop_body_leave:
  assumes "loop_body w st = Inl (ex, st')"
  shows "attempts st' = attempts st" and "delay st' = delay st"
    and "backoff_waits (trace st') = backoff_waits (trace st)"
    and "ex \<noteq> Retries_exhausted"
proof -
  obtain res mt t where tb:
    "try_block (responses w (attempts st)) (conn st) (attempts st) (mets st) = (res, mt, t)"
    by (cases "try_block (responses w (attempts st)) (conn st) (attempts st) (mets st)")
  have t: "backoff_waits t = []"
    using try_block_waits(1) [of "responses w (attempts st)" "conn st" "attempts st" "mets st"]
    by (simp add: tb)
  from assms tb have "st' = st\<lparr>mets := mt, trace := trace st @ t\<rparr> \<and> ex \<noteq> Retries_exhausted"
    by (cases res) (auto simp: loop_body_def)
  with t show "attempts st' = attempts st" and "delay st' = delay st"
    and "backoff_waits (trace st') = backoff_waits (trace st)"
    and "ex \<noteq> Retries_exhausted"
    by simp_all
qed

lemma loop_body_retry:
  assumes "loop_body w st = Inr st'"
  shows "attempts st' = attempts st + 1"
    and "delay st' = (if attempts st + 1 \<ge> MAX_RETRIES then delay st else delay st * 2)"
    and "backoff_waits (trace st') =
           backoff_waits (trace st) @ (if attempts st + 1 \<ge> MAX_RETRIES then [] else [delay st])"
    and "failureCount (mets st') = failureCount (mets st) + 1"
    and "successCount (mets st') = successCount (mets st)"
proof -
  obtain res mt t where tb:
    "try_block (responses w (attempts st)) (conn st) (attempts st) (mets st) = (res, mt, t)"
    by (cases "try_block (responses w (attempts st)) (conn st) (attempts st) (mets st)")
  have t: "backoff_waits t = []"
    using try_block_waits(1) [of "responses w (attempts st)" "conn st" "attempts st" "mets st"]
    by (simp add: tb)
  from assms tb obtain e where e: "res = Throw e"
    and st': "st' = catch_block (probe w (attempts st)) e (st\<lparr>mets := mt, trace := trace st @ t\<rparr>)"
    by (cases res) (auto simp: loop_body_def)
  from tb e have mt: "mt = mets st" by (auto dest: try_block_throw_metrics)
  show "attempts st' = attempts st + 1"
    by (simp add: st' catch_block_attempts)
  show "delay st' = (if attempts st + 1 \<ge> MAX_RETRIES then delay st else delay st * 2)"
    by (simp add: st' catch_block_delay)
  show "backoff_waits (trace st') =
           backoff_waits (trace st) @ (if attempts st + 1 \<ge> MAX_RETRIES then [] else [delay st])"
    by (simp add: st' catch_block_backoff_waits t)
  show "failureCount (mets st') = failureCount (mets st) + 1"
    by (simp add: st' catch_block_failureCount mt)
  show "successCount (mets st') = successCount (mets st)"
    by (simp add: st' catch_block_successCount mt)
qed

lemma loop_body_throws:
  assumes "\<exists>e. fst (try_block (responses w (attempts st)) (conn st) (attempts st) (mets st)) = Throw e"
  shows "\<exists>st1. loop_body w st = Inr st1
       \<and> (attempts st + 1 \<ge> MAX_RETRIES \<longrightarrow>
            (\<exists>t. trace st1 = t @ [Log Critical_error_exhausted, logMetrics (mets st1)]))"
proof -
  obtain res mt t where tb:
    "try_block (responses w (attempts st)) (conn st) (attempts st) (mets st) = (res, mt, t)"
    by (cases "try_block (responses w (attempts st)) (conn st) (attempts st) (mets st)")
  with assms obtain e where "res = Throw e" by auto
  with tb have "loop_body w st =
      Inr (catch_block (probe w (attempts st)) e (st\<lparr>mets := mt, trace := trace st @ t\<rparr>))"
    by (simp add: loop_body_def)
  moreover have "attempts st + 1 \<ge> MAX_RETRIES \<Longrightarrow>
      \<exists>u. trace (catch_block (probe w (attempts st)) e (st\<lparr>mets := mt, trace := trace st @ t\<rparr>)) =
        u @ [Log Critical_error_exhausted,
             logMetrics (mets (catch_block (probe w (attempts st)) e
                                 (st\<lparr>mets := mt, trace := trace st @ t\<rparr>)))]"
    using catch_block_last_pass
      [of "st\<lparr>mets := mt, trace := trace st @ t\<rparr>" "probe w (attempts st)" e]
    by simp
  ultimately show ?thesis by simp
qed

subsection \<open>The whole loop\<close>

lemma doubling_shift:
  "(d::nat) # map (\<lambda>j. d * 2 * 2 ^ j) [0..<k] = map (\<lambda>j. d * 2 ^ j) [0..<Suc k]"
  by (induction k) simp_all

text \<open>
  From any state of the loop: the attempt index only grows and stops at the budget, and
  the back-off waits added are the delay of that state, doubled each time.
\<close>

lemma crank_loop_backoff_waits:
  "crank_loop w st = (ex, st') \<Longrightarrow>
     attempts st \<le> attempts st'
   \<and> (ex = Retries_exhausted \<longrightarrow> MAX_RETRIES \<le> attempts st')
   \<and> (attempts st \<le> MAX_RETRIES \<longrightarrow> attempts st' \<le> MAX_RETRIES)
   \<and> (ex \<noteq> Retries_exhausted \<longrightarrow> attempts st' < MAX_RETRIES)
   \<and> backoff_waits (trace st') =
       backoff_waits (trace st) @
       map (\<lambda>j. delay st * 2 ^ j)
         [0 ..< attempts st' - attempts st - (if ex = Retries_exhausted then 1 else 0)]"
proof (induction w st arbitrary: ex st' rule: crank_loop.induct)
  case (1 w st)
  show ?case
  proof (cases "attempts st < MAX_RETRIES")
    case False
    with "1.prems" show ?thesis by (simp add: crank_loop_exhausted)
  next
    case True
    show ?thesis
    proof (cases "loop_body w st")
      case (Inl r)
      with True "1.prems" have r: "loop_body w st = Inl (ex, st')"
        by (simp add: crank_loop_leave)
      from loop_body_leave [OF r] True show ?thesis by simp
    next
      case (Inr st1)
      with True "1.prems" have run: "crank_loop w st1 = (ex, st')"
        by (simp add: crank_loop_retry)
      note ih = "1.IH" [OF True Inr run]
      note body = loop_body_retry [OF Inr]
      show ?thesis
      proof (cases "attempts st + 1 \<ge> MAX_RETRIES")
        case True
        then have "\<not> attempts st1 < MAX_RETRIES" using body(1) by simp
        with run have "ex = Retries_exhausted" "st' = st1"
          by (simp_all add: crank_loop_exhausted)
        with body True \<open>attempts st < MAX_RETRIES\<close> show ?thesis by simp
      next
        case False
        from ih body(1) False have a: "attempts st + 1 \<le> attempts st'"
          and b: "ex = Retries_exhausted \<Longrightarrow> attempts st + 2 \<le> attempts st'"
          by auto
        have n: "attempts st' - attempts st - (if ex = Retries_exhausted then 1 else 0)
                 = Suc (attempts st' - attempts st1 - (if ex = Retries_exhausted then 1 else 0))"
          using a b body(1) by auto
        from ih body False show ?thesis
          by (simp only: n) (simp add: doubling_shift [symmetric] del: upt_Suc)
      qed
    qed
  qed
qed

text \<open>From any state of the loop: when every attempt still to come throws.\<close>

lemma crank_loop_all_throw:
  assumes "\<forall>i. attempts st \<le> i \<and> i < MAX_RETRIES \<longrightarrow>
             (\<forall>c mt. \<exists>e. fst (try_block (responses w i) c i mt) = Throw e)"
    and "attempts st < MAX_RETRIES"
  shows "\<exists>st'. crank_loop w st = (Retries_exhausted, st')
       \<and> attempts st' = MAX_RETRIES
       \<and> failureCount (mets st') = failureCount (mets st) + (MAX_RETRIES - attempts st)
       \<and> successCount (mets st') = successCount (mets st)
       \<and> (\<exists>t. trace st' = t @ [Log Critical_error_exhausted, logMetrics (mets st')])"
  using assms
proof (induction w st rule: crank_loop.induct)
  case (1 w st)
  from "1.prems"
  have "\<exists>e. fst (try_block (responses w (attempts st)) (conn st) (attempts st) (mets st)) = Throw e"
    by auto
  from loop_body_throws [OF this] obtain st1 where body: "loop_body w st = Inr st1"
    and last: "attempts st + 1 \<ge> MAX_RETRIES \<longrightarrow>
            (\<exists>t. trace st1 = t @ [Log Critical_error_exhausted, logMetrics (mets st1)])"
    by blast
  note facts = loop_body_retry [OF body]
  from "1.prems"(2) body have run: "crank_loop w st = crank_loop w st1"
    by (rule crank_loop_retry)
  show ?case
  proof (cases "attempts st1 < MAX_RETRIES")
    case False
    with facts(1) "1.prems"(2) have a: "attempts st1 = MAX_RETRIES" "attempts st + 1 \<ge> MAX_RETRIES"
      by simp_all
    from False have "crank_loop w st1 = (Retries_exhausted, st1)"
      by (rule crank_loop_exhausted)
    with run a last facts show ?thesis by simp
  next
    case True
    have "\<forall>i. attempts st1 \<le> i \<and> i < MAX_RETRIES \<longrightarrow>
             (\<forall>c mt. \<exists>e. fst (try_block (responses w i) c i mt) = Throw e)"
      using "1.prems"(1) facts(1) by simp
    from "1.IH" [OF "1.prems"(2) body this True] obtain st' where
      "crank_loop w st1 = (Retries_exhausted, st')" "attempts st' = MAX_RETRIES"
      "failureCount (mets st') = failureCount (mets st1) + (MAX_RETRIES - attempts st1)"
      "successCount (mets st') = successCount (mets st1)"
      "\<exists>t. trace st' = t @ [Log Critical_error_exhausted, logMetrics (mets st')]"
      by blast
    with run facts True show ?thesis by simp
  qed
qed

text \<open>
  From any state of the loop: when the counter is zero at the end, it was zero at the
  start, or a submission has succeeded, or there has been a penalty pause, or a failure
  that is not of the expiry class has been caught (and logged).
\<close>

lemma crank_loop_counter_zero:
  "crank_loop w st = (ex, st') \<Longrightarrow>
     \<exists>new. trace st' = trace st @ new
       \<and> (consecutiveBlockhashErrors (mets st') = 0 \<longrightarrow>
            consecutiveBlockhashErrors (mets st) = 0
          \<or> ex = Submitted
          \<or> penalty_pauses new \<noteq> []
          \<or> (\<exists>msg. Log (Crank_execution_failed msg) \<in> set new \<and> \<not> is_blockhash_expiry (Error msg)))"
proof (induction w st arbitrary: ex st' rule: crank_loop.induct)
  case (1 w st)
  show ?case
  proof (cases "attempts st < MAX_RETRIES")
    case False
    with "1.prems" show ?thesis by (simp add: crank_loop_exhausted)
  next
    case True
    obtain res mt t where tb:
      "try_block (responses w (attempts st)) (conn st) (attempts st) (mets st) = (res, mt, t)"
      by (cases "try_block (responses w (attempts st)) (conn st) (attempts st) (mets st)")
    have keep: "consecutiveBlockhashErrors mt =
        (if res = Return then 0 else consecutiveBlockhashErrors (mets st))"
      using try_block_counter [of "responses w (attempts st)" "conn st" "attempts st" "mets st"]
      by (simp add: tb)
    show ?thesis
    proof (cases "loop_body w st")
      case (Inl r)
      with True "1.prems" have r: "loop_body w st = Inl (ex, st')"
        by (simp add: crank_loop_leave)
      with tb have "st' = st\<lparr>mets := mt, trace := trace st @ t\<rparr> \<and> (res = Return \<longrightarrow> ex = Submitted)"
        by (cases res) (auto simp: loop_body_def)
      with keep show ?thesis by auto
    next
      case (Inr st1)
      with True "1.prems" have run: "crank_loop w st1 = (ex, st')"
        by (simp add: crank_loop_retry)
      from "1.IH" [OF True Inr run] obtain new2 where both: "trace st' = trace st1 @ new2
        \<and> (consecutiveBlockhashErrors (mets st') = 0 \<longrightarrow>
            consecutiveBlockhashErrors (mets st1) = 0
          \<or> ex = Submitted
          \<or> penalty_pauses new2 \<noteq> []
          \<or> (\<exists>msg. Log (Crank_execution_failed msg) \<in> set new2 \<and> \<not> is_blockhash_expiry (Error msg)))"
        ..
      from both have new2: "trace st' = trace st1 @ new2" by (rule conjunct1)
      from both have ih: "consecutiveBlockhashErrors (mets st') = 0 \<longrightarrow>
            consecutiveBlockhashErrors (mets st1) = 0
          \<or> ex = Submitted
          \<or> penalty_pauses new2 \<noteq> []
          \<or> (\<exists>msg. Log (Crank_execution_failed msg) \<in> set new2 \<and> \<not> is_blockhash_expiry (Error msg))"
        by (rule conjunct2)
      from Inr tb obtain e where e: "res = Throw e"
        and st1: "st1 = catch_block (probe w (attempts st)) e (st\<lparr>mets := mt, trace := trace st @ t\<rparr>)"
        by (cases res) (auto simp: loop_body_def)
      let ?s = "st\<lparr>mets := mt, trace := trace st @ t\<rparr>"
      from catch_block_trace [of "probe w (attempts st)" e ?s] obtain new1 where
        new1: "trace st1 = trace st @ t @ Log (Crank_execution_failed (message e)) # new1"
        by (auto simp: st1)
      have c1: "consecutiveBlockhashErrors (mets st1) =
          fst (blockhash_guard e (consecutiveBlockhashErrors (mets st)))"
        using keep e by (simp add: st1 catch_block_counter)
      have p1: "penalty_pauses (t @ Log (Crank_execution_failed (message e)) # new1) =
          penalty_pauses (snd (blockhash_guard e (consecutiveBlockhashErrors (mets st))))"
      proof -
        have "penalty_pauses (trace st1) = penalty_pauses (trace ?s) @
            penalty_pauses (snd (blockhash_guard e (consecutiveBlockhashErrors (mets ?s))))"
          unfolding st1 by (rule catch_block_penalty_pauses)
        moreover have "penalty_pauses t = []"
          using try_block_waits(2) [of "responses w (attempts st)" "conn st" "attempts st" "mets st"]
          by (simp add: tb)
        ultimately show ?thesis using new1 keep e by simp
      qed
      have zero: "consecutiveBlockhashErrors (mets st1) = 0 \<longrightarrow>
          penalty_pauses (t @ Log (Crank_execution_failed (message e)) # new1) \<noteq> []
        \<or> \<not> is_blockhash_expiry e"
        unfolding c1 p1 by (simp add: blockhash_guard_def Let_def)
      have msg: "Error (message e) = e" by simp
      let ?new = "t @ Log (Crank_execution_failed (message e)) # new1 @ new2"
      have "trace st' = trace st @ ?new" using new1 new2 by simp
      moreover have "consecutiveBlockhashErrors (mets st') = 0 \<longrightarrow>
            consecutiveBlockhashErrors (mets st) = 0
          \<or> ex = Submitted
          \<or> penalty_pauses ?new \<noteq> []
          \<or> (\<exists>msg. Log (Crank_execution_failed msg) \<in> set ?new \<and> \<not> is_blockhash_expiry (Error msg))"
      proof
        assume "consecutiveBlockhashErrors (mets st') = 0"
        with ih consider "consecutiveBlockhashErrors (mets st1) = 0" | "ex = Submitted"
          | "penalty_pauses new2 \<noteq> []"
          | msg where "Log (Crank_execution_failed msg) \<in> set new2" "\<not> is_blockhash_expiry (Error msg)"
          by auto
        then show "consecutiveBlockhashErrors (mets st) = 0
          \<or> ex = Submitted
          \<or> penalty_pauses ?new \<noteq> []
          \<or> (\<exists>msg. Log (Crank_execution_failed msg) \<in> set ?new \<and> \<not> is_blockhash_expiry (Error msg))"
        proof cases
          case 1
          with zero consider "penalty_pauses (t @ Log (Crank_execution_failed (message e)) # new1) \<noteq> []"
            | "\<not> is_blockhash_expiry e" by auto
          then show ?thesis
          proof cases
            case 1
            then show ?thesis by auto
          next
            case 2
            with msg have "Log (Crank_execution_failed (message e)) \<in> set ?new
                \<and> \<not> is_blockhash_expiry (Error (message e))" by simp
            then show ?thesis by auto
          qed
        next
          case 2 then show ?thesis by simp
        next
          case 3 then show ?thesis by auto
        next
          case 4
          then have "Log (Crank_execution_failed msg) \<in> set ?new" by simp
          with 4 show ?thesis by auto
        qed
      qed
      ultimately show ?thesis by auto
    qed
  qed
qed

text \<open>
  The runs of two examples: two expired blockhashes and a fee veto on fresh counters, and
  five network errors on the counters the first run leaves.
\<close>

lemma expiries_then_veto_run:
  "mets (snd (executeCrankInstruction expiries_then_veto (Connection PRIMARY_RPC_URL) fresh_metrics))
     = \<lparr>successCount = 0, failureCount = 2, lastSuccessSlot = 0, consecutiveBlockhashErrors = 2\<rparr>"
  by (simp add: executeCrankInstruction_def expiries_then_veto_def crank_loop.simps
      loop_body_def try_block_def catch_block_def blockhash_guard_def is_blockhash_expiry_def
      getConnectionWithFailover_def MAX_RETRIES_def MAX_FEE_LAMPORTS_def healthy_def
      fresh_metrics_def logMetrics_def Let_def)

lemma network_errors_run:
  "fst (executeCrankInstruction
          (always (healthy\<lparr>sendRawTransaction := Inl (Error ''Network error'')\<rparr>))
          (Connection PRIMARY_RPC_URL)
          \<lparr>successCount = 0, failureCount = 2, lastSuccessSlot = 0, consecutiveBlockhashErrors = 2\<rparr>)
     = Retries_exhausted"
  "mets (snd (executeCrankInstruction
          (always (healthy\<lparr>sendRawTransaction := Inl (Error ''Network error'')\<rparr>))
          (Connection PRIMARY_RPC_URL)
          \<lparr>successCount = 0, failureCount = 2, lastSuccessSlot = 0, consecutiveBlockhashErrors = 2\<rparr>))
     = \<lparr>successCount = 0, failureCount = 7, lastSuccessSlot = 0, consecutiveBlockhashErrors = 0\<rparr>"
  "penalty_pauses (trace (snd (executeCrankInstruction
          (always (healthy\<lparr>sendRawTransaction := Inl (Error ''Network error'')\<rparr>))
          (Connection PRIMARY_RPC_URL)
          \<lparr>successCount = 0, failureCount = 2, lastSuccessSlot = 0, consecutiveBlockhashErrors = 2\<rparr>)))
     = []"
  by (simp_all add: executeCrankInstruction_def always_def crank_loop.simps
      loop_body_def try_block_def catch_block_def blockhash_guard_def is_blockhash_expiry_def
      getConnectionWithFailover_def MAX_RETRIES_def MAX_FEE_LAMPORTS_def healthy_def
      logMetrics_def Let_def)

text \<open>The run of the example with two network errors.\<close>

lemma two_network_errors_run:
  "fst (executeCrankInstruction two_network_errors (Connection PRIMARY_RPC_URL) fresh_metrics) = Submitted"
  "attempts (snd (executeCrankInstruction two_network_errors (Connection PRIMARY_RPC_URL) fresh_metrics)) = 2"
  by (simp_all add: executeCrankInstruction_def two_network_errors_def crank_loop.simps
      loop_body_def try_block_def catch_block_def blockhash_guard_def is_blockhash_expiry_def
      getConnectionWithFailover_def MAX_RETRIES_def MAX_FEE_LAMPORTS_def healthy_def
      fresh_metrics_def logMetrics_def Let_def)

subsection \<open>The attempts of an invocation\<close>


lemma after_failures_loop:
  "after_failures w s0 k = Some s \<Longrightarrow> crank_loop w s0 = crank_loop w s"
proof (induction k arbitrary: s0)
  case 0
  then show ?case by simp
next
  case (Suc k)
  from Suc.prems have lt: "attempts s0 < MAX_RETRIES"
    by (simp split: if_splits)
  with Suc.prems obtain s1 where body: "loop_body w s0 = Inr s1"
    and rest: "after_failures w s1 k = Some s"
    by (cases "loop_body w s0") simp_all
  from lt body have "crank_loop w s0 = crank_loop w s1" by (rule crank_loop_retry)
  with Suc.IH [OF rest] show ?case by simp
qed

lemma after_failures_counts:
  "after_failures w s0 k = Some s \<Longrightarrow>
     attempts s = attempts s0 + k
   \<and> failureCount (mets s) = failureCount (mets s0) + k
   \<and> successCount (mets s) = successCount (mets s0)"
proof (induction k arbitrary: s0)
  case 0
  then show ?case by simp
next
  case (Suc k)
  from Suc.prems have lt: "attempts s0 < MAX_RETRIES"
    by (simp split: if_splits)
  with Suc.prems obtain s1 where body: "loop_body w s0 = Inr s1"
    and rest: "after_failures w s1 k = Some s"
    by (cases "loop_body w s0") simp_all
  from loop_body_retry [OF body] Suc.IH [OF rest] show ?case by simp
qed


lemma failed_attempts_run:
  assumes "failed_attempts w c mt k = Some st"
  shows "executeCrankInstruction w c mt = crank_loop w st"
    and "attempts st = k"
    and "failureCount (mets st) = failureCount mt + k"
    and "successCount (mets st) = successCount mt"
    and "k = 0 \<longrightarrow> st = \<lparr>attempts = 0, delay = 1000, conn = c, mets = mt, trace = []\<rparr>"
proof -
  let ?s0 = "\<lparr>attempts = 0, delay = 1000, conn = c, mets = mt, trace = []\<rparr>"
  from assms have a: "after_failures w ?s0 k = Some st"
    by (simp add: failed_attempts_def)
  from after_failures_loop [OF a]
  show "executeCrankInstruction w c mt = crank_loop w st"
    by (simp add: executeCrankInstruction_def)
  from after_failures_counts [OF a]
  show "attempts st = k" and "failureCount (mets st) = failureCount mt + k"
    and "successCount (mets st) = successCount mt"
    by simp_all
  from a show "k = 0 \<longrightarrow> st = ?s0" by auto
qed






text \<open>The runs of the examples in which an attempt fails before the fee veto or the simulation error.\<close>

lemma slot_error_then_veto_run:
  "fst (executeCrankInstruction slot_error_then_veto (Connection PRIMARY_RPC_URL) fresh_metrics)
     = Fee_veto"
  "mets (snd (executeCrankInstruction slot_error_then_veto (Connection PRIMARY_RPC_URL) fresh_metrics))
     = \<lparr>successCount = 0, failureCount = 1, lastSuccessSlot = 0, consecutiveBlockhashErrors = 0\<rparr>"
  "trace (snd (executeCrankInstruction slot_error_then_veto (Connection PRIMARY_RPC_URL) fresh_metrics))
     = [Log (Constructing_attempt 1), GetLatestBlockhash (Connection PRIMARY_RPC_URL), Sign,
        GetFeeForMessage (Connection PRIMARY_RPC_URL),
        SimulateTransaction (Connection PRIMARY_RPC_URL),
        SendRawTransaction (Connection PRIMARY_RPC_URL),
        Log (Success_crank_tx ''signature''), GetSlot (Connection PRIMARY_RPC_URL),
        Log (Crank_execution_failed ''fetch failed''),
        Log (Backoff_retrying_in 1000), Backoff_wait 1000, GetSlot (Connection PRIMARY_RPC_URL),
        Log (Constructing_attempt 2), GetLatestBlockhash (Connection PRIMARY_RPC_URL), Sign,
        GetFeeForMessage (Connection PRIMARY_RPC_URL), Log (Gas_cost_too_high 6000000)]"
  by (simp_all add: executeCrankInstruction_def slot_error_then_veto_def crank_loop.simps
      loop_body_def try_block_def catch_block_def blockhash_guard_def is_blockhash_expiry_def
      getConnectionWithFailover_def MAX_RETRIES_def MAX_FEE_LAMPORTS_def healthy_def
      fresh_metrics_def logMetrics_def Let_def)

lemma slot_error_then_veto_first:
  "\<exists>st. failed_attempts slot_error_then_veto (Connection PRIMARY_RPC_URL) fresh_metrics 1 = Some st"
  by (simp add: failed_attempts_def slot_error_then_veto_def
      loop_body_def try_block_def catch_block_def blockhash_guard_def is_blockhash_expiry_def
      getConnectionWithFailover_def MAX_RETRIES_def MAX_FEE_LAMPORTS_def healthy_def
      fresh_metrics_def logMetrics_def Let_def)

lemma send_error_then_simulation_error_run:
  "fst (executeCrankInstruction send_error_then_simulation_error (Connection PRIMARY_RPC_URL)
          fresh_metrics) = Simulation_abort"
  "mets (snd (executeCrankInstruction send_error_then_simulation_error (Connection PRIMARY_RPC_URL)
          fresh_metrics))
     = \<lparr>successCount = 0, failureCount = 2, lastSuccessSlot = 0, consecutiveBlockhashErrors = 0\<rparr>"
  "trace (snd (executeCrankInstruction send_error_then_simulation_error (Connection PRIMARY_RPC_URL)
          fresh_metrics))
     = [Log (Constructing_attempt 1), GetLatestBlockhash (Connection PRIMARY_RPC_URL), Sign,
        GetFeeForMessage (Connection PRIMARY_RPC_URL),
        SimulateTransaction (Connection PRIMARY_RPC_URL),
        SendRawTransaction (Connection PRIMARY_RPC_URL),
        Log (Crank_execution_failed ''Network error''),
        Log (Backoff_retrying_in 1000), Backoff_wait 1000, GetSlot (Connection PRIMARY_RPC_URL),
        Log (Constructing_attempt 2), GetLatestBlockhash (Connection PRIMARY_RPC_URL), Sign,
        GetFeeForMessage (Connection PRIMARY_RPC_URL),
        SimulateTransaction (Connection PRIMARY_RPC_URL),
        Log (Simulation_failed (Js_string ''AccountNotFound'')), Log (Metrics_line 0 2 0)]"
  by (simp_all add: executeCrankInstruction_def send_error_then_simulation_error_def crank_loop.simps
      loop_body_def try_block_def catch_block_def blockhash_guard_def is_blockhash_expiry_def
      getConnectionWithFailover_def MAX_RETRIES_def MAX_FEE_LAMPORTS_def healthy_def
      fresh_metrics_def logMetrics_def Let_def)

lemma send_error_then_simulation_error_first:
  "\<exists>st. failed_attempts send_error_then_simulation_error (Connection PRIMARY_RPC_URL) fresh_metrics 1
          = Some st"
  by (simp add: failed_attempts_def send_error_then_simulation_error_def
      loop_body_def try_block_def catch_block_def blockhash_guard_def is_blockhash_expiry_def
      getConnectionWithFailover_def MAX_RETRIES_def MAX_FEE_LAMPORTS_def healthy_def
      fresh_metrics_def logMetrics_def Let_def)



subsection \<open>Start-up\<close>

lemma load_crankWallet_exit:
  assumes "(\<exists>e. JSON_parse lib (or_default key_json ''[]'') = Inl e)
    \<or> (\<exists>v e. JSON_parse lib (or_default key_json ''[]'') = Inr v \<and> length_positive lib v = Inl e)
    \<or> (\<exists>v e. JSON_parse lib (or_default key_json ''[]'') = Inr v \<and> length_positive lib v = Inr True
              \<and> fromSecretKey lib v = Inl e)"
  shows "load_crankWallet lib key_json = Inl 1"
  using assms by (auto simp: load_crankWallet_def)

lemma load_crankWallet_generated:
  assumes "key_json \<in> {None, Some '''', Some ''[]''}"
    and "JSON_parse lib ''[]'' = Inr v0" and "length_positive lib v0 = Inr False"
  shows "load_crankWallet lib key_json = Inr Generated_random_keypair"
  using assms by (auto simp: load_crankWallet_def or_default_def)

lemma loop_start_returns:
  assumes "new_conn PRIMARY_RPC_URL = None"
    and "reachable slot_of PRIMARY_RPC_URL \<or> new_conn FALLBACK_RPC_URL = None"
  shows "loop_start new_conn slot_of = Inr (fst (getConnectionWithFailover slot_of))"
  using assms
  by (auto simp: loop_start_def getConnectionWithFailover_def reachable_def Let_def
        split: sum.splits)

lemma startup_after_public_keys:
  assumes "public_keys_ok lib env"
  shows "startup lib env slot_of =
     (case load_crankWallet lib (CRANK_KEYPAIR_JSON env) of
        Inl code \<Rightarrow> Process_exit code
      | Inr crankWallet \<Rightarrow>
        (case loop_start (new_Connection lib) slot_of of
           Inl e \<Rightarrow> Process_exit 1
         | Inr connection \<Rightarrow> Enters_loop crankWallet connection))"
  using assms
  by (simp add: startup_def public_keys_ok_def returns_def split: sum.splits)

lemma startup_wallet_exit:
  assumes "load_crankWallet lib (CRANK_KEYPAIR_JSON env) = Inl code"
  shows "fatal (startup lib env slot_of)"
  using assms by (simp add: startup_def fatal_def split: sum.splits)

text \<open>
  The default program id has the character \<open>0\<close>, which is not in the alphabet of base 58:
  with \<open>PERCOLATOR_PROGRAM_ID\<close> unset, a constructor that rejects such a text ends start-up
  at line 25, whatever the wallet key.
\<close>

lemma default_program_id_not_base58:
  "\<not> is_base58 ''p3Rc0Lator111111111111111111111111111111111''"
  by (simp add: is_base58_def)

lemma startup_default_program_id:
  assumes "\<And>t. \<not> is_base58 t \<Longrightarrow> \<not> returns (new_PublicKey lib t)"
    and "PERCOLATOR_PROGRAM_ID env \<in> {None, Some ''''}"
  shows "\<exists>e. startup lib env slot_of = Uncaught_exception e"
proof -
  from assms(2)
  have "or_default (PERCOLATOR_PROGRAM_ID env) ''p3Rc0Lator111111111111111111111111111111111''
          = ''p3Rc0Lator111111111111111111111111111111111''"
    by (auto simp: or_default_def)
  moreover from assms(1) [OF default_program_id_not_base58]
  obtain e where "new_PublicKey lib ''p3Rc0Lator111111111111111111111111111111111'' = Inl e"
    by (auto simp: returns_def split: sum.splits)
  ultimately show ?thesis by (simp add: startup_def)
qed

lemma example_startup_facts:
  "public_keys_ok example_library example_environment"
  "public_keys_ok example_library (example_environment\<lparr>CRANK_KEYPAIR_JSON := Some ''not json''\<rparr>)"
  "JSON_parse example_library ''[]'' = Inr []"
  "length_positive example_library [] = Inr False"
  "new_Connection example_library ep = None"
  "CRANK_KEYPAIR_JSON example_environment = None"
  "\<exists>e. JSON_parse example_library
          (or_default (CRANK_KEYPAIR_JSON (example_environment\<lparr>CRANK_KEYPAIR_JSON := Some ''not json''\<rparr>))
             ''[]'') = Inl e"
  by (simp_all add: public_keys_ok_def returns_def example_library_def example_environment_def
        or_default_def is_base58_def)

section \<open>The claims\<close>

text \<open>
  An attempt of an invocation is spoken of through \<open>failed_attempts\<close>: with
  \<open>failed_attempts w c mt k = Some st\<close> and \<open>k < MAX_RETRIES\<close>, the first \<open>k\<close> attempts of the
  invocation have failed in the catch block and attempt number \<open>k\<close> (counted from 0) starts
  in the state \<open>st\<close>; with \<open>k = 0\<close> that is the state the invocation starts in.
\<close>

text \<open>
  C1, as amended. Let the first \<open>k\<close> attempts of an invocation have failed and left the
  state \<open>st\<close>, and let the fee query of the next attempt return an estimate strictly greater
  than the ceiling of 5,000,000 lamports. Then the invocation ends there, on the fee veto:
  it returns \<open>st\<close> with five more entries in its trace, none of them a submission or a wait.
  So from the start of that attempt on nothing is submitted, \<open>failureCount\<close> is not
  incremented and nothing is retried: the counters, the attempt index and the delay are
  those of \<open>st\<close>. What the \<open>k\<close> failed attempts have done is not undone: \<open>failureCount\<close> in
  \<open>st\<close> is \<open>k\<close> more than at the start of the invocation. With \<open>k = 0\<close>, the veto in the first
  attempt, the invocation as a whole submits nothing and changes no counter.
\<close>

theorem fee_veto_is_clean_exit:
  assumes "failed_attempts w c mt k = Some st" and "k < MAX_RETRIES"
    and "getLatestBlockhash (responses w k) = Inr bh"
    and "getFeeForMessage (responses w k) = Inr (Some v)"
    and "v > MAX_FEE_LAMPORTS"
  shows "executeCrankInstruction w c mt =
           (Fee_veto,
            st\<lparr>trace := trace st @
                 [Log (Constructing_attempt (k + 1)), GetLatestBlockhash (conn st), Sign,
                  GetFeeForMessage (conn st), Log (Gas_cost_too_high v)]\<rparr>)
       \<and> attempts st = k
       \<and> failureCount (mets st) = failureCount mt + k
       \<and> (k = 0 \<longrightarrow> st = \<lparr>attempts = 0, delay = 1000, conn = c, mets = mt, trace = []\<rparr>)"
proof -
  note run = failed_attempts_run [OF assms(1)]
  from run(2) assms(2) have lt: "attempts st < MAX_RETRIES" by simp
  have "loop_body w st =
          Inl (Fee_veto,
            st\<lparr>trace := trace st @
                 [Log (Constructing_attempt (k + 1)), GetLatestBlockhash (conn st), Sign,
                  GetFeeForMessage (conn st), Log (Gas_cost_too_high v)]\<rparr>)"
    using assms(3-5) run(2) by (simp add: loop_body_def try_block_fee_veto)
  with lt have "crank_loop w st =
          (Fee_veto,
            st\<lparr>trace := trace st @
                 [Log (Constructing_attempt (k + 1)), GetLatestBlockhash (conn st), Sign,
                  GetFeeForMessage (conn st), Log (Gas_cost_too_high v)]\<rparr>)"
    by (rule crank_loop_leave)
  with run show ?thesis by simp
qed

theorem fee_veto_is_clean_exit_witness:
  "(\<exists>st. failed_attempts slot_error_then_veto (Connection PRIMARY_RPC_URL) fresh_metrics 1 = Some st
     \<and> executeCrankInstruction slot_error_then_veto (Connection PRIMARY_RPC_URL) fresh_metrics =
         (Fee_veto,
          st\<lparr>trace := trace st @
               [Log (Constructing_attempt (1 + 1)), GetLatestBlockhash (conn st), Sign,
                GetFeeForMessage (conn st), Log (Gas_cost_too_high 6000000)]\<rparr>)
     \<and> attempts st = 1
     \<and> failureCount (mets st) = failureCount fresh_metrics + 1)
   \<and> executeCrankInstruction (always (healthy\<lparr>getFeeForMessage := Inr (Some 6000000)\<rparr>))
         (Connection PRIMARY_RPC_URL) fresh_metrics =
       (Fee_veto,
        \<lparr>attempts = 0, delay = 1000, conn = Connection PRIMARY_RPC_URL, mets = fresh_metrics,
         trace = [Log (Constructing_attempt (0 + 1)), GetLatestBlockhash (Connection PRIMARY_RPC_URL),
                  Sign, GetFeeForMessage (Connection PRIMARY_RPC_URL),
                  Log (Gas_cost_too_high 6000000)]\<rparr>)"
proof -
  from slot_error_then_veto_first obtain st where
    st: "failed_attempts slot_error_then_veto (Connection PRIMARY_RPC_URL) fresh_metrics 1 = Some st"
    ..
  have r: "getLatestBlockhash (responses slot_error_then_veto 1) = Inr (''blockhash'', 200)"
    "getFeeForMessage (responses slot_error_then_veto 1) = Inr (Some 6000000)"
    "(6000000::int) > MAX_FEE_LAMPORTS" "(1::nat) < MAX_RETRIES"
    by (simp_all add: slot_error_then_veto_def MAX_FEE_LAMPORTS_def MAX_RETRIES_def)
  from fee_veto_is_clean_exit [OF st r(4) r(1) r(2) r(3)] st
  have later: "\<exists>st. failed_attempts slot_error_then_veto (Connection PRIMARY_RPC_URL) fresh_metrics 1
          = Some st
     \<and> executeCrankInstruction slot_error_then_veto (Connection PRIMARY_RPC_URL) fresh_metrics =
         (Fee_veto,
          st\<lparr>trace := trace st @
               [Log (Constructing_attempt (1 + 1)), GetLatestBlockhash (conn st), Sign,
                GetFeeForMessage (conn st), Log (Gas_cost_too_high 6000000)]\<rparr>)
     \<and> attempts st = 1
     \<and> failureCount (mets st) = failureCount fresh_metrics + 1"
    by blast
  let ?w = "always (healthy\<lparr>getFeeForMessage := Inr (Some 6000000)\<rparr>)"
  let ?s0 = "\<lparr>attempts = 0, delay = 1000, conn = Connection PRIMARY_RPC_URL, mets = fresh_metrics,
              trace = []\<rparr>"
  have s0: "failed_attempts ?w (Connection PRIMARY_RPC_URL) fresh_metrics 0 = Some ?s0"
    by (simp add: failed_attempts_def)
  have r0: "getLatestBlockhash (responses ?w 0) = Inr (''blockhash'', 200)"
    "getFeeForMessage (responses ?w 0) = Inr (Some 6000000)" "(0::nat) < MAX_RETRIES"
    by (simp_all add: MAX_RETRIES_def)
  from fee_veto_is_clean_exit [OF s0 r0(3) r0(1) r0(2) r(3)]
  have first: "executeCrankInstruction ?w (Connection PRIMARY_RPC_URL) fresh_metrics =
       (Fee_veto,
        \<lparr>attempts = 0, delay = 1000, conn = Connection PRIMARY_RPC_URL, mets = fresh_metrics,
         trace = [Log (Constructing_attempt (0 + 1)), GetLatestBlockhash (Connection PRIMARY_RPC_URL),
                  Sign, GetFeeForMessage (Connection PRIMARY_RPC_URL),
                  Log (Gas_cost_too_high 6000000)]\<rparr>)"
    by simp
  from later first show ?thesis by (rule conjI)
qed

text \<open>
  C1 as stated fails. In this invocation the first attempt submits the transaction and the
  slot query after the submission throws; the second attempt is vetoed on a fee estimate of
  6,000,000 lamports. The invocation ends on the veto, and it has called submit, has
  incremented \<open>failureCount\<close> and has retried after a back-off wait.
\<close>

theorem fee_veto_after_failed_attempt:
  "fst (executeCrankInstruction slot_error_then_veto (Connection PRIMARY_RPC_URL) fresh_metrics)
     = Fee_veto
   \<and> Log (Gas_cost_too_high 6000000) \<in>
       set (trace (snd (executeCrankInstruction slot_error_then_veto (Connection PRIMARY_RPC_URL)
                          fresh_metrics)))
   \<and> SendRawTransaction (Connection PRIMARY_RPC_URL) \<in>
       set (trace (snd (executeCrankInstruction slot_error_then_veto (Connection PRIMARY_RPC_URL)
                          fresh_metrics)))
   \<and> failureCount fresh_metrics = 0
   \<and> failureCount (mets (snd (executeCrankInstruction slot_error_then_veto
                                 (Connection PRIMARY_RPC_URL) fresh_metrics))) = 1
   \<and> backoff_waits (trace (snd (executeCrankInstruction slot_error_then_veto
                                   (Connection PRIMARY_RPC_URL) fresh_metrics))) = [1000]"
proof -
  have "failureCount fresh_metrics = 0" by (simp add: fresh_metrics_def)
  then show ?thesis by (simp add: slot_error_then_veto_run)
qed

text \<open>
  C2, as amended. Let the first \<open>k\<close> attempts of an invocation have failed and left the
  state \<open>st\<close>, and let the simulation of the next attempt report an execution error, a
  \<open>value.err\<close> that is truthy. Then the invocation ends there: it returns \<open>st\<close> with
  \<open>failureCount\<close> one more and seven more entries in its trace, which stop at the simulation.
  So from the start of that attempt on nothing is submitted, \<open>failureCount\<close> is incremented
  exactly once, and no further attempt is made. What the \<open>k\<close> failed attempts have done is
  not undone: \<open>failureCount\<close> in \<open>st\<close> is \<open>k\<close> more than at the start of the invocation. With
  \<open>k = 0\<close>, the error in the first attempt, the invocation as a whole submits nothing and
  increments \<open>failureCount\<close> by exactly one.
\<close>

theorem simulation_error_aborts:
  assumes "failed_attempts w c mt k = Some st" and "k < MAX_RETRIES"
    and "getLatestBlockhash (responses w k) = Inr bh"
    and "getFeeForMessage (responses w k) = Inr fee"
    and "\<not> (fee \<noteq> None \<and> the fee > MAX_FEE_LAMPORTS)"
    and "simulateTransaction (responses w k) = Inr (Some err)"
    and "truthy err"
  shows "executeCrankInstruction w c mt =
           (Simulation_abort,
            st\<lparr>mets := (mets st)\<lparr>failureCount := failureCount (mets st) + 1\<rparr>,
               trace := trace st @
                 [Log (Constructing_attempt (k + 1)), GetLatestBlockhash (conn st), Sign,
                  GetFeeForMessage (conn st), SimulateTransaction (conn st),
                  Log (Simulation_failed err),
                  logMetrics ((mets st)\<lparr>failureCount := failureCount (mets st) + 1\<rparr>)]\<rparr>)
       \<and> attempts st = k
       \<and> failureCount (mets st) = failureCount mt + k
       \<and> (k = 0 \<longrightarrow> st = \<lparr>attempts = 0, delay = 1000, conn = c, mets = mt, trace = []\<rparr>)"
proof -
  note run = failed_attempts_run [OF assms(1)]
  from run(2) assms(2) have lt: "attempts st < MAX_RETRIES" by simp
  have "loop_body w st =
          Inl (Simulation_abort,
            st\<lparr>mets := (mets st)\<lparr>failureCount := failureCount (mets st) + 1\<rparr>,
               trace := trace st @
                 [Log (Constructing_attempt (k + 1)), GetLatestBlockhash (conn st), Sign,
                  GetFeeForMessage (conn st), SimulateTransaction (conn st),
                  Log (Simulation_failed err),
                  logMetrics ((mets st)\<lparr>failureCount := failureCount (mets st) + 1\<rparr>)]\<rparr>)"
    using assms(3-7) run(2) by (simp add: loop_body_def try_block_sim_error [where fee = fee])
  with lt have "crank_loop w st =
          (Simulation_abort,
            st\<lparr>mets := (mets st)\<lparr>failureCount := failureCount (mets st) + 1\<rparr>,
               trace := trace st @
                 [Log (Constructing_attempt (k + 1)), GetLatestBlockhash (conn st), Sign,
                  GetFeeForMessage (conn st), SimulateTransaction (conn st),
                  Log (Simulation_failed err),
                  logMetrics ((mets st)\<lparr>failureCount := failureCount (mets st) + 1\<rparr>)]\<rparr>)"
    by (rule crank_loop_leave)
  with run show ?thesis by simp
qed

theorem simulation_error_aborts_witness:
  "(\<exists>st. failed_attempts send_error_then_simulation_error (Connection PRIMARY_RPC_URL) fresh_metrics 1
          = Some st
     \<and> executeCrankInstruction send_error_then_simulation_error (Connection PRIMARY_RPC_URL)
         fresh_metrics =
         (Simulation_abort,
          st\<lparr>mets := (mets st)\<lparr>failureCount := failureCount (mets st) + 1\<rparr>,
             trace := trace st @
               [Log (Constructing_attempt (1 + 1)), GetLatestBlockhash (conn st), Sign,
                GetFeeForMessage (conn st), SimulateTransaction (conn st),
                Log (Simulation_failed (Js_string ''AccountNotFound'')),
                logMetrics ((mets st)\<lparr>failureCount := failureCount (mets st) + 1\<rparr>)]\<rparr>)
     \<and> attempts st = 1
     \<and> failureCount (mets st) = failureCount fresh_metrics + 1)
   \<and> executeCrankInstruction
         (always (healthy\<lparr>simulateTransaction := Inr (Some (Js_string ''AccountNotFound''))\<rparr>))
         (Connection PRIMARY_RPC_URL) fresh_metrics =
       (Simulation_abort,
        \<lparr>attempts = 0, delay = 1000, conn = Connection PRIMARY_RPC_URL,
         mets = fresh_metrics\<lparr>failureCount := failureCount fresh_metrics + 1\<rparr>,
         trace = [Log (Constructing_attempt (0 + 1)), GetLatestBlockhash (Connection PRIMARY_RPC_URL),
                  Sign, GetFeeForMessage (Connection PRIMARY_RPC_URL),
                  SimulateTransaction (Connection PRIMARY_RPC_URL),
                  Log (Simulation_failed (Js_string ''AccountNotFound'')),
                  logMetrics (fresh_metrics\<lparr>failureCount := failureCount fresh_metrics + 1\<rparr>)]\<rparr>)"
proof -
  from send_error_then_simulation_error_first obtain st where
    st: "failed_attempts send_error_then_simulation_error (Connection PRIMARY_RPC_URL) fresh_metrics 1
           = Some st"
    ..
  have r: "getLatestBlockhash (responses send_error_then_simulation_error 1) = Inr (''blockhash'', 200)"
    "getFeeForMessage (responses send_error_then_simulation_error 1) = Inr (Some 1000)"
    "\<not> (Some (1000::int) \<noteq> None \<and> the (Some 1000) > MAX_FEE_LAMPORTS)"
    "simulateTransaction (responses send_error_then_simulation_error 1)
       = Inr (Some (Js_string ''AccountNotFound''))"
    "truthy (Js_string ''AccountNotFound'')" "(1::nat) < MAX_RETRIES"
    by (simp_all add: send_error_then_simulation_error_def MAX_FEE_LAMPORTS_def MAX_RETRIES_def)
  from simulation_error_aborts [OF st r(6) r(1) r(2) r(3) r(4) r(5)] st
  have later: "\<exists>st. failed_attempts send_error_then_simulation_error (Connection PRIMARY_RPC_URL)
          fresh_metrics 1 = Some st
     \<and> executeCrankInstruction send_error_then_simulation_error (Connection PRIMARY_RPC_URL)
         fresh_metrics =
         (Simulation_abort,
          st\<lparr>mets := (mets st)\<lparr>failureCount := failureCount (mets st) + 1\<rparr>,
             trace := trace st @
               [Log (Constructing_attempt (1 + 1)), GetLatestBlockhash (conn st), Sign,
                GetFeeForMessage (conn st), SimulateTransaction (conn st),
                Log (Simulation_failed (Js_string ''AccountNotFound'')),
                logMetrics ((mets st)\<lparr>failureCount := failureCount (mets st) + 1\<rparr>)]\<rparr>)
     \<and> attempts st = 1
     \<and> failureCount (mets st) = failureCount fresh_metrics + 1"
    by blast
  let ?w = "always (healthy\<lparr>simulateTransaction := Inr (Some (Js_string ''AccountNotFound''))\<rparr>)"
  let ?s0 = "\<lparr>attempts = 0, delay = 1000, conn = Connection PRIMARY_RPC_URL, mets = fresh_metrics,
              trace = []\<rparr>"
  have s0: "failed_attempts ?w (Connection PRIMARY_RPC_URL) fresh_metrics 0 = Some ?s0"
    by (simp add: failed_attempts_def)
  have r0: "getLatestBlockhash (responses ?w 0) = Inr (''blockhash'', 200)"
    "getFeeForMessage (responses ?w 0) = Inr (Some 1000)"
    "simulateTransaction (responses ?w 0) = Inr (Some (Js_string ''AccountNotFound''))"
    "(0::nat) < MAX_RETRIES"
    by (simp_all add: MAX_RETRIES_def)
  from simulation_error_aborts [OF s0 r0(4) r0(1) r0(2) r(3) r0(3) r(5)]
  have first: "executeCrankInstruction ?w (Connection PRIMARY_RPC_URL) fresh_metrics =
       (Simulation_abort,
        \<lparr>attempts = 0, delay = 1000, conn = Connection PRIMARY_RPC_URL,
         mets = fresh_metrics\<lparr>failureCount := failureCount fresh_metrics + 1\<rparr>,
         trace = [Log (Constructing_attempt (0 + 1)), GetLatestBlockhash (Connection PRIMARY_RPC_URL),
                  Sign, GetFeeForMessage (Connection PRIMARY_RPC_URL),
                  SimulateTransaction (Connection PRIMARY_RPC_URL),
                  Log (Simulation_failed (Js_string ''AccountNotFound'')),
                  logMetrics (fresh_metrics\<lparr>failureCount := failureCount fresh_metrics + 1\<rparr>)]\<rparr>)"
    by simp
  from later first show ?thesis by (rule conjI)
qed

text \<open>
  C2 as stated fails. In this invocation the submission of the first attempt fails on the
  network, and the simulation of the second attempt reports an error. The invocation ends
  on the simulation error, and it has called submit and has incremented \<open>failureCount\<close> by
  two.
\<close>

theorem simulation_error_after_failed_attempt:
  "fst (executeCrankInstruction send_error_then_simulation_error (Connection PRIMARY_RPC_URL)
          fresh_metrics) = Simulation_abort
   \<and> Log (Simulation_failed (Js_string ''AccountNotFound'')) \<in>
       set (trace (snd (executeCrankInstruction send_error_then_simulation_error
                          (Connection PRIMARY_RPC_URL) fresh_metrics)))
   \<and> SendRawTransaction (Connection PRIMARY_RPC_URL) \<in>
       set (trace (snd (executeCrankInstruction send_error_then_simulation_error
                          (Connection PRIMARY_RPC_URL) fresh_metrics)))
   \<and> failureCount fresh_metrics = 0
   \<and> failureCount (mets (snd (executeCrankInstruction send_error_then_simulation_error
                                 (Connection PRIMARY_RPC_URL) fresh_metrics))) = 2"
proof -
  have "failureCount fresh_metrics = 0" by (simp add: fresh_metrics_def)
  then show ?thesis by (simp add: send_error_then_simulation_error_run)
qed

text \<open>
  C3, as amended. In every attempt the calls are made in the order BUILD (the validity
  anchor is fetched), FEE_CHECK, SIMULATE, SUBMIT, each only after all the earlier ones:
  the actions of an attempt are an initial part of that sequence, ended by the first call
  that throws, by the veto or by the simulation error. The transaction is signed in BUILD,
  as soon as the anchor is there and before the fee query; SUBMIT sends the transaction
  signed there and then reads the slot.
\<close>

theorem attempt_steps_in_order:
  "actions (snd (snd (try_block r c n mt))) \<in>
     {[GetLatestBlockhash c],
      [GetLatestBlockhash c, Sign, GetFeeForMessage c],
      [GetLatestBlockhash c, Sign, GetFeeForMessage c, SimulateTransaction c],
      [GetLatestBlockhash c, Sign, GetFeeForMessage c, SimulateTransaction c, SendRawTransaction c],
      [GetLatestBlockhash c, Sign, GetFeeForMessage c, SimulateTransaction c, SendRawTransaction c,
       GetSlot c]}"
  by (cases "getLatestBlockhash r"; cases "getFeeForMessage r"; cases "simulateTransaction r";
      cases "sendRawTransaction r"; cases "getSlot r")
     (simp_all add: try_block_def actions_def logMetrics_def Let_def split: option.splits)

theorem attempt_steps_in_order_witness:
  "actions (snd (snd (try_block (healthy\<lparr>simulateTransaction := Inl (Error ''timeout'')\<rparr>)
                        (Connection FALLBACK_RPC_URL) 3 fresh_metrics)))
     = [GetLatestBlockhash (Connection FALLBACK_RPC_URL), Sign,
        GetFeeForMessage (Connection FALLBACK_RPC_URL),
        SimulateTransaction (Connection FALLBACK_RPC_URL)]"
proof -
  have "SendRawTransaction (Connection FALLBACK_RPC_URL) \<notin>
          set (snd (snd (try_block (healthy\<lparr>simulateTransaction := Inl (Error ''timeout'')\<rparr>)
                          (Connection FALLBACK_RPC_URL) 3 fresh_metrics)))"
    and "SimulateTransaction (Connection FALLBACK_RPC_URL) \<in>
          set (snd (snd (try_block (healthy\<lparr>simulateTransaction := Inl (Error ''timeout'')\<rparr>)
                          (Connection FALLBACK_RPC_URL) 3 fresh_metrics)))"
    by (simp_all add: try_block_def Let_def MAX_FEE_LAMPORTS_def)
  then have "SendRawTransaction (Connection FALLBACK_RPC_URL) \<notin>
          set (actions (snd (snd (try_block (healthy\<lparr>simulateTransaction := Inl (Error ''timeout'')\<rparr>)
                          (Connection FALLBACK_RPC_URL) 3 fresh_metrics))))"
    and "SimulateTransaction (Connection FALLBACK_RPC_URL) \<in>
          set (actions (snd (snd (try_block (healthy\<lparr>simulateTransaction := Inl (Error ''timeout'')\<rparr>)
                          (Connection FALLBACK_RPC_URL) 3 fresh_metrics))))"
    by (simp_all add: actions_def)
  with attempt_steps_in_order
    [of "healthy\<lparr>simulateTransaction := Inl (Error ''timeout'')\<rparr>" "Connection FALLBACK_RPC_URL"
        3 fresh_metrics]
  show ?thesis by auto
qed

text \<open>
  C3 as stated fails on the signing. In the attempt whose fee estimate is 6,000,000
  lamports the fee check vetoes and nothing is simulated or submitted; the transaction has
  been signed all the same, before the fee query.
\<close>

theorem signing_precedes_fee_check:
  "try_block (healthy\<lparr>getFeeForMessage := Inr (Some 6000000)\<rparr>) (Connection PRIMARY_RPC_URL) 0
       fresh_metrics =
     (Break_fee, fresh_metrics,
      [Log (Constructing_attempt 1), GetLatestBlockhash (Connection PRIMARY_RPC_URL), Sign,
       GetFeeForMessage (Connection PRIMARY_RPC_URL), Log (Gas_cost_too_high 6000000)])
   \<and> Sign \<in> set (snd (snd (try_block (healthy\<lparr>getFeeForMessage := Inr (Some 6000000)\<rparr>)
                             (Connection PRIMARY_RPC_URL) 0 fresh_metrics)))
   \<and> SimulateTransaction (Connection PRIMARY_RPC_URL) \<notin>
       set (snd (snd (try_block (healthy\<lparr>getFeeForMessage := Inr (Some 6000000)\<rparr>)
                        (Connection PRIMARY_RPC_URL) 0 fresh_metrics)))
   \<and> SendRawTransaction (Connection PRIMARY_RPC_URL) \<notin>
       set (snd (snd (try_block (healthy\<lparr>getFeeForMessage := Inr (Some 6000000)\<rparr>)
                        (Connection PRIMARY_RPC_URL) 0 fresh_metrics)))"
  by (simp add: try_block_def Let_def MAX_FEE_LAMPORTS_def)

text \<open>
  C4. In one invocation the back-off waits are 1000 ms, 2000 ms, 4000 ms, ...: the wait
  before the \<open>n\<close>-th retry is \<open>1000 * 2 ^ (n - 1)\<close> ms. There is one wait for each failed
  attempt but the fifth, so at most four. (The 30 s penalty pause is a timer of its own and
  is not among them.)
\<close>

theorem backoff_delay_doubles:
  assumes "executeCrankInstruction w c mt = (ex, st')"
  shows "backoff_waits (trace st') =
           map (\<lambda>n. 1000 * 2 ^ n) [0 ..< attempts st' - (if ex = Retries_exhausted then 1 else 0)]
       \<and> length (backoff_waits (trace st')) < MAX_RETRIES"
proof -
  from assms have run:
    "crank_loop w \<lparr>attempts = 0, delay = 1000, conn = c, mets = mt, trace = []\<rparr> = (ex, st')"
    by (simp add: executeCrankInstruction_def)
  from crank_loop_backoff_waits [OF run]
  have w: "backoff_waits (trace st') =
           map (\<lambda>n. 1000 * 2 ^ n) [0 ..< attempts st' - (if ex = Retries_exhausted then 1 else 0)]"
    and le: "attempts st' \<le> MAX_RETRIES"
    and lt: "ex \<noteq> Retries_exhausted \<longrightarrow> attempts st' < MAX_RETRIES"
    by simp_all
  from le lt have "attempts st' - (if ex = Retries_exhausted then 1 else 0) < MAX_RETRIES"
    by (auto simp: MAX_RETRIES_def)
  with w show ?thesis by simp
qed

theorem backoff_delay_doubles_witness:
  "backoff_waits (trace (snd (executeCrankInstruction two_network_errors (Connection PRIMARY_RPC_URL)
      fresh_metrics))) = [1000, 2000]"
  using backoff_delay_doubles [OF prod.collapse [symmetric],
      of two_network_errors "Connection PRIMARY_RPC_URL" fresh_metrics]
  by (simp add: two_network_errors_run numeral_2_eq_2)




text \<open>
  C6. When each of the five attempts of an invocation throws, the invocation returns, by
  leaving the loop with the budget used up: the attempt index is 5, \<open>failureCount\<close> is 5 more
  than before, \<open>successCount\<close> is as before, and the last thing done is to log the critical
  error and the metrics. No error leaves the function: the catch block consumes what the
  try block throws, and of its own calls the only one that can throw, the probe of the
  primary endpoint, is caught inside \<open>getConnectionWithFailover\<close>.
\<close>

theorem retry_budget_exhausted:
  assumes "\<forall>i < MAX_RETRIES. \<forall>c mt. \<exists>e. fst (try_block (responses w i) c i mt) = Throw e"
  shows "\<exists>st'. executeCrankInstruction w c mt = (Retries_exhausted, st')
       \<and> attempts st' = 5
       \<and> failureCount (mets st') = failureCount mt + 5
       \<and> successCount (mets st') = successCount mt
       \<and> (\<exists>t. trace st' = t @ [Log Critical_error_exhausted, logMetrics (mets st')])"
proof -
  let ?st = "\<lparr>attempts = 0, delay = 1000, conn = c, mets = mt, trace = []\<rparr>"
  have "\<forall>i. attempts ?st \<le> i \<and> i < MAX_RETRIES \<longrightarrow>
             (\<forall>c mt. \<exists>e. fst (try_block (responses w i) c i mt) = Throw e)"
    using assms by simp
  moreover have "attempts ?st < MAX_RETRIES" by (simp add: MAX_RETRIES_def)
  ultimately show ?thesis
    using crank_loop_all_throw [of ?st w]
    by (simp add: executeCrankInstruction_def MAX_RETRIES_def)
qed

theorem retry_budget_exhausted_witness:
  "fst (executeCrankInstruction (always (healthy\<lparr>sendRawTransaction := Inl (Error ''BlockhashNotFound'')\<rparr>))
          (Connection PRIMARY_RPC_URL) fresh_metrics) = Retries_exhausted
   \<and> failureCount (mets (snd (executeCrankInstruction
          (always (healthy\<lparr>sendRawTransaction := Inl (Error ''BlockhashNotFound'')\<rparr>))
          (Connection PRIMARY_RPC_URL) fresh_metrics))) = 5"
proof -
  have "\<forall>i < MAX_RETRIES. \<forall>c mt. \<exists>e.
          fst (try_block (responses (always (healthy\<lparr>sendRawTransaction := Inl (Error ''BlockhashNotFound'')\<rparr>)) i)
                 c i mt) = Throw e"
    by (simp add: try_block_def Let_def MAX_FEE_LAMPORTS_def)
  from retry_budget_exhausted [OF this, of "Connection PRIMARY_RPC_URL" fresh_metrics]
  show ?thesis by (auto simp: fresh_metrics_def)
qed

text \<open>
  C7. The selector probes the primary endpoint, once, and makes no other call. It returns
  the primary connection when the probe succeeds and the fallback connection, unprobed,
  when it fails. It returns a connection on every outcome of the probe, so it never fails;
  and when at least one of the two endpoints is reachable, the connection returned is to a
  reachable one.
\<close>

theorem failover_by_priority:
  "fst (getConnectionWithFailover slot_of) =
     Connection (if reachable slot_of PRIMARY_RPC_URL then PRIMARY_RPC_URL else FALLBACK_RPC_URL)
   \<and> actions (snd (getConnectionWithFailover slot_of)) = [GetSlot (Connection PRIMARY_RPC_URL)]
   \<and> ((\<exists>ep. reachable slot_of ep) \<longrightarrow>
        reachable slot_of (rpcEndpoint (fst (getConnectionWithFailover slot_of))))"
proof -
  have sel: "fst (getConnectionWithFailover slot_of) =
     Connection (if reachable slot_of PRIMARY_RPC_URL then PRIMARY_RPC_URL else FALLBACK_RPC_URL)"
    by (simp add: getConnectionWithFailover_def reachable_def Let_def split: sum.splits)
  have act: "actions (snd (getConnectionWithFailover slot_of)) = [GetSlot (Connection PRIMARY_RPC_URL)]"
    by (simp add: getConnectionWithFailover_def actions_def Let_def split: sum.splits)
  have live: "reachable slot_of (rpcEndpoint (fst (getConnectionWithFailover slot_of)))"
    if "reachable slot_of ep" for ep
    using that by (cases ep) (simp_all add: sel)
  from sel act live show ?thesis by blast
qed

theorem failover_by_priority_witness:
  "reachable primary_down FALLBACK_RPC_URL
   \<and> fst (getConnectionWithFailover primary_down) = Connection FALLBACK_RPC_URL
   \<and> actions (snd (getConnectionWithFailover primary_down)) = [GetSlot (Connection PRIMARY_RPC_URL)]
   \<and> reachable primary_down (rpcEndpoint (fst (getConnectionWithFailover primary_down)))"
proof -
  have r: "reachable primary_down FALLBACK_RPC_URL" "\<not> reachable primary_down PRIMARY_RPC_URL"
    by (simp_all add: reachable_def primary_down_def)
  then have "\<exists>ep. reachable primary_down ep" by blast
  with failover_by_priority [of primary_down] r show ?thesis by simp
qed

text \<open>
  C8, as amended. Start-up is fatal when the key text is not JSON, or reading the length of
  the parsed value throws, or the parsed value has a positive length and the keypair
  constructor rejects it: the process ends instead of entering the scheduler loop, and by
  \<open>process.exit(1)\<close> when the three configured ids are public keys. When no key is provided,
  the variable being unset or empty or holding the empty array, that does not end start-up:
  the bot generates a random keypair, and it enters the scheduler loop when the rest of
  start-up succeeds, that is, when the three configured ids are public keys and the
  connection can be constructed. (\<open>JSON.parse\<close> answers the text \<open>[]\<close> with the empty array,
  whose length is not positive: that is the premise on \<open>v0\<close>.)
\<close>

theorem startup_fatal_cases:
  "((\<exists>e. JSON_parse lib (or_default (CRANK_KEYPAIR_JSON env) ''[]'') = Inl e)
    \<or> (\<exists>v e. JSON_parse lib (or_default (CRANK_KEYPAIR_JSON env) ''[]'') = Inr v
              \<and> length_positive lib v = Inl e)
    \<or> (\<exists>v e. JSON_parse lib (or_default (CRANK_KEYPAIR_JSON env) ''[]'') = Inr v
              \<and> length_positive lib v = Inr True \<and> fromSecretKey lib v = Inl e)
    \<longrightarrow>
      fatal (startup lib env slot_of)
    \<and> (public_keys_ok lib env \<longrightarrow> startup lib env slot_of = Process_exit 1))
   \<and> (CRANK_KEYPAIR_JSON env \<in> {None, Some '''', Some ''[]''}
      \<and> JSON_parse lib ''[]'' = Inr v0 \<and> length_positive lib v0 = Inr False
      \<and> public_keys_ok lib env
      \<and> new_Connection lib PRIMARY_RPC_URL = None
      \<and> (reachable slot_of PRIMARY_RPC_URL \<or> new_Connection lib FALLBACK_RPC_URL = None)
    \<longrightarrow>
      startup lib env slot_of =
        Enters_loop Generated_random_keypair (fst (getConnectionWithFailover slot_of)))"
proof (intro conjI impI)
  assume "(\<exists>e. JSON_parse lib (or_default (CRANK_KEYPAIR_JSON env) ''[]'') = Inl e)
    \<or> (\<exists>v e. JSON_parse lib (or_default (CRANK_KEYPAIR_JSON env) ''[]'') = Inr v
              \<and> length_positive lib v = Inl e)
    \<or> (\<exists>v e. JSON_parse lib (or_default (CRANK_KEYPAIR_JSON env) ''[]'') = Inr v
              \<and> length_positive lib v = Inr True \<and> fromSecretKey lib v = Inl e)"
  then have x: "load_crankWallet lib (CRANK_KEYPAIR_JSON env) = Inl 1"
    by (rule load_crankWallet_exit)
  then show "fatal (startup lib env slot_of)" by (rule startup_wallet_exit)
  show "startup lib env slot_of = Process_exit 1" if "public_keys_ok lib env"
    using startup_after_public_keys [OF that, of slot_of] x by simp
next
  assume h: "CRANK_KEYPAIR_JSON env \<in> {None, Some '''', Some ''[]''}
      \<and> JSON_parse lib ''[]'' = Inr v0 \<and> length_positive lib v0 = Inr False
      \<and> public_keys_ok lib env
      \<and> new_Connection lib PRIMARY_RPC_URL = None
      \<and> (reachable slot_of PRIMARY_RPC_URL \<or> new_Connection lib FALLBACK_RPC_URL = None)"
  then have "load_crankWallet lib (CRANK_KEYPAIR_JSON env) = Inr Generated_random_keypair"
    by (intro load_crankWallet_generated [where ?v0.0 = v0]) simp_all
  moreover from h have "loop_start (new_Connection lib) slot_of
      = Inr (fst (getConnectionWithFailover slot_of))"
    by (intro loop_start_returns) simp_all
  moreover from h have "public_keys_ok lib env" by simp
  ultimately show "startup lib env slot_of =
        Enters_loop Generated_random_keypair (fst (getConnectionWithFailover slot_of))"
    by (simp add: startup_after_public_keys)
qed

theorem startup_fatal_cases_witness:
  "startup example_library (example_environment\<lparr>CRANK_KEYPAIR_JSON := Some ''not json''\<rparr>)
       (\<lambda>ep. Inr 1000) = Process_exit 1
   \<and> startup example_library example_environment primary_down =
       Enters_loop Generated_random_keypair (fst (getConnectionWithFailover primary_down))"
proof -
  note t1 = startup_fatal_cases
    [of example_library "example_environment\<lparr>CRANK_KEYPAIR_JSON := Some ''not json''\<rparr>"
        "\<lambda>ep. Inr 1000" "[]"]
  note t2 = startup_fatal_cases [of example_library example_environment primary_down "[]"]
  from t1 example_startup_facts(2,7)
  have 1: "startup example_library (example_environment\<lparr>CRANK_KEYPAIR_JSON := Some ''not json''\<rparr>)
       (\<lambda>ep. Inr 1000) = Process_exit 1"
    by blast
  from t2 example_startup_facts(1,3,4,5,6)
  have 2: "startup example_library example_environment primary_down =
       Enters_loop Generated_random_keypair (fst (getConnectionWithFailover primary_down))"
    by simp
  from 1 2 show ?thesis by (rule conjI)
qed

text \<open>
  C8 as stated fails: started with a valid program id and with \<open>CRANK_KEYPAIR_JSON\<close> unset,
  so with no wallet key at all, the bot does not exit; it enters the scheduler loop with a
  random keypair.
\<close>

theorem startup_without_key_enters_loop:
  "CRANK_KEYPAIR_JSON example_environment = None
   \<and> startup example_library example_environment (\<lambda>ep. Inr 1000) =
       Enters_loop Generated_random_keypair (Connection PRIMARY_RPC_URL)
   \<and> \<not> fatal (startup example_library example_environment (\<lambda>ep. Inr 1000))"
  by (simp add: startup_def load_crankWallet_def loop_start_def fatal_def or_default_def
      example_library_def example_environment_def is_base58_def)

text \<open>
  C9, as amended. The counter is set back to zero by a successful submission, by the
  penalty pause, and by every caught failure that is not of the expiry class; nothing else
  sets it back to zero. For an invocation: when the counter is zero at the end and was not
  at the start, the invocation has ended in a successful submission, or has paused, or has
  caught (and logged) a failure that is not of the expiry class. Block by block: the try
  block leaves the counter as it is unless it returns after a submission; the catch block
  adds one on an expiry-class failure while the sum is below 3, sets the counter to zero,
  after the pause, when the sum reaches 3, and sets it to zero, with no pause, on a failure
  of the other class.
\<close>

theorem counter_reset_events:
  "(executeCrankInstruction w cn mt0 = (ex, st') \<and> consecutiveBlockhashErrors (mets st') = 0
      \<and> consecutiveBlockhashErrors mt0 \<noteq> 0
    \<longrightarrow>
      ex = Submitted
    \<or> penalty_pauses (trace st') \<noteq> []
    \<or> (\<exists>msg. Log (Crank_execution_failed msg) \<in> set (trace st') \<and> \<not> is_blockhash_expiry (Error msg)))
   \<and> consecutiveBlockhashErrors (fst (snd (try_block r c n mt))) =
     (if fst (try_block r c n mt) = Return then 0 else consecutiveBlockhashErrors mt)
   \<and> consecutiveBlockhashErrors (mets (catch_block p e st)) =
     (if is_blockhash_expiry e
      then (if consecutiveBlockhashErrors (mets st) + 1 \<ge> 3 then 0
            else consecutiveBlockhashErrors (mets st) + 1)
      else 0)
   \<and> penalty_pauses (trace (catch_block p e st)) =
     penalty_pauses (trace st) @
     (if is_blockhash_expiry e \<and> consecutiveBlockhashErrors (mets st) + 1 \<ge> 3 then [30000] else [])"
proof -
  have inv: "ex = Submitted
    \<or> penalty_pauses (trace st') \<noteq> []
    \<or> (\<exists>msg. Log (Crank_execution_failed msg) \<in> set (trace st') \<and> \<not> is_blockhash_expiry (Error msg))"
    if run: "executeCrankInstruction w cn mt0 = (ex, st')"
      and zero: "consecutiveBlockhashErrors (mets st') = 0"
      and start: "consecutiveBlockhashErrors mt0 \<noteq> 0"
  proof -
    from run have
      "crank_loop w \<lparr>attempts = 0, delay = 1000, conn = cn, mets = mt0, trace = []\<rparr> = (ex, st')"
      by (simp add: executeCrankInstruction_def)
    from crank_loop_counter_zero [OF this] zero start show ?thesis by simp
  qed
  have blocks: "consecutiveBlockhashErrors (mets (catch_block p e st)) =
     (if is_blockhash_expiry e
      then (if consecutiveBlockhashErrors (mets st) + 1 \<ge> 3 then 0
            else consecutiveBlockhashErrors (mets st) + 1)
      else 0)"
    "penalty_pauses (trace (catch_block p e st)) =
     penalty_pauses (trace st) @
     (if is_blockhash_expiry e \<and> consecutiveBlockhashErrors (mets st) + 1 \<ge> 3 then [30000] else [])"
    by (simp_all add: catch_block_counter catch_block_penalty_pauses blockhash_guard_pauses)
       (simp add: blockhash_guard_def Let_def)
  from inv blocks try_block_counter [of r c n mt] show ?thesis by blast
qed

theorem counter_reset_events_witness:
  "\<exists>msg. Log (Crank_execution_failed msg) \<in>
       set (trace (snd (executeCrankInstruction
          (always (healthy\<lparr>sendRawTransaction := Inl (Error ''Network error'')\<rparr>))
          (Connection PRIMARY_RPC_URL)
          \<lparr>successCount = 0, failureCount = 2, lastSuccessSlot = 0, consecutiveBlockhashErrors = 2\<rparr>)))
     \<and> \<not> is_blockhash_expiry (Error msg)"
proof -
  let ?run = "executeCrankInstruction
          (always (healthy\<lparr>sendRawTransaction := Inl (Error ''Network error'')\<rparr>))
          (Connection PRIMARY_RPC_URL)
          \<lparr>successCount = 0, failureCount = 2, lastSuccessSlot = 0, consecutiveBlockhashErrors = 2\<rparr>"
  have "?run = (fst ?run, snd ?run)" by simp
  moreover have "consecutiveBlockhashErrors (mets (snd ?run)) = 0"
    by (simp add: network_errors_run(2))
  moreover have "fst ?run \<noteq> Submitted" "penalty_pauses (trace (snd ?run)) = []"
    by (simp_all add: network_errors_run)
  ultimately show ?thesis
    using counter_reset_events
      [of "always (healthy\<lparr>sendRawTransaction := Inl (Error ''Network error'')\<rparr>)"
          "Connection PRIMARY_RPC_URL"
          "\<lparr>successCount = 0, failureCount = 2, lastSuccessSlot = 0, consecutiveBlockhashErrors = 2\<rparr>"
          "fst ?run" "snd ?run"]
    by simp
qed

text \<open>
  C9 as stated fails. A first invocation, two expired blockhashes and then a fee veto,
  leaves the counter at 2. In the next invocation every submission fails with a network
  error: the counter is back at 0 when it returns, and there has been no successful
  submission (\<open>successCount\<close> is still 0) and no penalty pause.
\<close>

theorem counter_reset_by_other_failure:
  "mets (snd (executeCrankInstruction expiries_then_veto (Connection PRIMARY_RPC_URL) fresh_metrics))
     = \<lparr>successCount = 0, failureCount = 2, lastSuccessSlot = 0, consecutiveBlockhashErrors = 2\<rparr>
   \<and> mets (snd (executeCrankInstruction
          (always (healthy\<lparr>sendRawTransaction := Inl (Error ''Network error'')\<rparr>))
          (Connection PRIMARY_RPC_URL)
          \<lparr>successCount = 0, failureCount = 2, lastSuccessSlot = 0, consecutiveBlockhashErrors = 2\<rparr>))
     = \<lparr>successCount = 0, failureCount = 7, lastSuccessSlot = 0, consecutiveBlockhashErrors = 0\<rparr>
   \<and> penalty_pauses (trace (snd (executeCrankInstruction
          (always (healthy\<lparr>sendRawTransaction := Inl (Error ''Network error'')\<rparr>))
          (Connection PRIMARY_RPC_URL)
          \<lparr>successCount = 0, failureCount = 2, lastSuccessSlot = 0, consecutiveBlockhashErrors = 2\<rparr>)))
     = []"
  by (simp only: expiries_then_veto_run network_errors_run simp_thms)

text \<open>
  C10. In an attempt whose fee query returns null the executor does not veto: the
  simulation is called, and when the simulation is clean the transaction is submitted.
  The attempt is, in its result, its counters and its trace, the attempt with any fee \<open>v\<close>
  within the ceiling in the place of null.
\<close>

theorem null_fee_is_no_veto:
  assumes "getLatestBlockhash r = Inr bh" and "getFeeForMessage r = Inr None"
  shows "fst (try_block r c n mt) \<noteq> Break_fee
       \<and> SimulateTransaction c \<in> set (snd (snd (try_block r c n mt)))
       \<and> (simulateTransaction r = Inr None \<longrightarrow>
            SendRawTransaction c \<in> set (snd (snd (try_block r c n mt))))
       \<and> (v \<le> MAX_FEE_LAMPORTS \<longrightarrow>
            try_block r c n mt = try_block (r\<lparr>getFeeForMessage := Inr (Some v)\<rparr>) c n mt)"
  using assms
  by (simp add: try_block_def Let_def split: sum.splits option.splits)

theorem null_fee_is_no_veto_witness:
  "try_block (healthy\<lparr>getFeeForMessage := Inr None\<rparr>) (Connection PRIMARY_RPC_URL) 0 fresh_metrics
     = try_block healthy (Connection PRIMARY_RPC_URL) 0 fresh_metrics
   \<and> fst (try_block (healthy\<lparr>getFeeForMessage := Inr None\<rparr>) (Connection PRIMARY_RPC_URL) 0 fresh_metrics)
       = Return
   \<and> SendRawTransaction (Connection PRIMARY_RPC_URL) \<in>
       set (snd (snd (try_block (healthy\<lparr>getFeeForMessage := Inr None\<rparr>)
                        (Connection PRIMARY_RPC_URL) 0 fresh_metrics)))"
proof -
  have h: "healthy\<lparr>getFeeForMessage := Inr None, getFeeForMessage := Inr (Some 1000)\<rparr> = healthy"
    by (simp add: healthy_def)
  have r: "fst (try_block healthy (Connection PRIMARY_RPC_URL) 0 fresh_metrics) = Return"
    by (simp add: try_block_def Let_def MAX_FEE_LAMPORTS_def)
  have "getLatestBlockhash (healthy\<lparr>getFeeForMessage := Inr None\<rparr>) = Inr (''blockhash'', 200)"
    and "getFeeForMessage (healthy\<lparr>getFeeForMessage := Inr None\<rparr>) = Inr None"
    and "simulateTransaction (healthy\<lparr>getFeeForMessage := Inr None\<rparr>) = Inr None"
    and "(1000::int) \<le> MAX_FEE_LAMPORTS"
    by (simp_all add: MAX_FEE_LAMPORTS_def)
  from null_fee_is_no_veto [OF this(1,2), of "Connection PRIMARY_RPC_URL" 0 fresh_metrics 1000] this(3,4)
  have "SendRawTransaction (Connection PRIMARY_RPC_URL) \<in>
          set (snd (snd (try_block (healthy\<lparr>getFeeForMessage := Inr None\<rparr>)
                           (Connection PRIMARY_RPC_URL) 0 fresh_metrics)))"
    and "try_block (healthy\<lparr>getFeeForMessage := Inr None\<rparr>) (Connection PRIMARY_RPC_URL) 0 fresh_metrics
           = try_block healthy (Connection PRIMARY_RPC_URL) 0 fresh_metrics"
    by (auto simp: h)
  with r show ?thesis by simp
qed

end
